theory Spec2Isabelle
  imports Complex_Main "HOL-Library.Char_ord" "HOL-Library.List_Lexorder"
begin

section \<open>Python strings\<close>

text \<open>
  A Python \<open>str\<close> is modelled as a \<open>string\<close>: a list of characters, each one a
  code point below 256 (Latin-1), which covers every character the script names
  (the range \<open>\<Agrave>-\<yuml>\<close> of its word pattern ends at 255). \<open>bytes\<close> are lists of
  8-bit characters as well.
\<close>

type_synonym bytes = string

definition code :: "char \<Rightarrow> nat" where
  "code c = of_char c"

text \<open>\<open>str.isspace\<close> on one character: the code points Python counts as whitespace.\<close>

definition isspace :: "char \<Rightarrow> bool" where
  "isspace c = (code c \<in> {9, 10, 11, 12, 13, 28, 29, 30, 31, 32, 133, 160})"

definition lstrip :: "string \<Rightarrow> string" where
  "lstrip s = dropWhile isspace s"

definition rstrip :: "string \<Rightarrow> string" where
  "rstrip s = rev (dropWhile isspace (rev s))"

text \<open>\<open>s.strip()\<close>\<close>

definition strip :: "string \<Rightarrow> string" where
  "strip s = rstrip (lstrip s)"

text \<open>\<open>s.lstrip(chars)\<close>\<close>

definition lstrip_chars :: "string \<Rightarrow> string \<Rightarrow> string" where
  "lstrip_chars chars s = dropWhile (\<lambda>c. c \<in> set chars) s"

text \<open>\<open>str.lower\<close> on one character: A-Z, and the upper-case letters of Latin-1.\<close>

definition lower_char :: "char \<Rightarrow> char" where
  "lower_char c =
     (let n = code c in
      if (65 \<le> n \<and> n \<le> 90) \<or> (192 \<le> n \<and> n \<le> 222 \<and> n \<noteq> 215) then char_of (n + 32) else c)"

definition lower :: "string \<Rightarrow> string" where
  "lower s = map lower_char s"

text \<open>\<open>s.startswith(p)\<close> and \<open>s.endswith(p)\<close>\<close>

definition startswith :: "string \<Rightarrow> string \<Rightarrow> bool" where
  "startswith s p = (take (length p) s = p)"

definition endswith :: "string \<Rightarrow> string \<Rightarrow> bool" where
  "endswith s p = (length p \<le> length s \<and> drop (length s - length p) s = p)"

text \<open>\<open>p in s\<close>: \<open>p\<close> is a substring of \<open>s\<close>.\<close>

fun contains :: "string \<Rightarrow> string \<Rightarrow> bool" where
  "contains [] p = (p = [])"
| "contains (c # cs) p = (startswith (c # cs) p \<or> contains cs p)"

text \<open>
  \<open>s.split(sep, 1)\<close> for a separator of one character: the text before the first
  separator and the text after it, or the string alone when it has none.
\<close>

definition split1 :: "char \<Rightarrow> string \<Rightarrow> string list" where
  "split1 sep s =
     (if sep \<in> set s then [takeWhile (\<lambda>c. c \<noteq> sep) s, tl (dropWhile (\<lambda>c. c \<noteq> sep) s)]
      else [s])"

text \<open>
  \<open>s.splitlines()\<close>: the line boundaries are \<open>\n\<close>, \<open>\r\<close>, \<open>\r\n\<close>, \<open>\v\<close>, \<open>\f\<close>,
  the separators 28 to 30 and NEL (133); a final boundary opens no empty line.
\<close>

definition is_linebreak :: "char \<Rightarrow> bool" where
  "is_linebreak c = (code c \<in> {10, 11, 12, 13, 28, 29, 30, 133})"

fun splitlines_from :: "string \<Rightarrow> string \<Rightarrow> string list" where
  "splitlines_from cur [] = (if cur = [] then [] else [rev cur])"
| "splitlines_from cur [c] =
     (if is_linebreak c then [rev cur] else [rev (c # cur)])"
| "splitlines_from cur (c # d # cs) =
     (if code c = 13 \<and> code d = 10 then rev cur # splitlines_from [] cs
      else if is_linebreak c then rev cur # splitlines_from [] (d # cs)
      else splitlines_from (c # cur) (d # cs))"

definition splitlines :: "string \<Rightarrow> string list" where
  "splitlines s = splitlines_from [] s"

text \<open>\<open>sep.join(parts)\<close>\<close>

fun join :: "string \<Rightarrow> string list \<Rightarrow> string" where
  "join sep [] = []"
| "join sep [x] = x"
| "join sep (x # y # ys) = x @ sep @ join sep (y # ys)"

section \<open>Errors and the outside world\<close>

text \<open>
  The exceptions that the script meets, with their message: \<open>ValueError\<close> and
  \<open>LookupError\<close>, the \<open>ParseError\<close> of \<open>xml.etree.ElementTree\<close>, and the
  \<open>RecursionError\<close> of the interpreter. All of them are subclasses of \<open>Exception\<close>.
\<close>

datatype error = ValueError string | LookupError string | ParseError string | RecursionError

text \<open>Sequencing of calls that may raise: the first exception ends the computation.\<close>

definition and_then :: "error + 'a \<Rightarrow> ('a \<Rightarrow> error + 'b) \<Rightarrow> error + 'b" where
  "and_then r f = (case r of Inl e \<Rightarrow> Inl e | Inr x \<Rightarrow> f x)"

text \<open>The result of \<open>urllib.parse.urlparse\<close>: the fields the script reads, and the path.\<close>

record url_parts =
  scheme :: string
  netloc :: string
  path :: string

text \<open>
  A response of the browser context's request API: its status, and what \<open>body()\<close>
  and \<open>text()\<close> return (\<open>None\<close> when the call raises).
\<close>

record response =
  status :: int
  body :: "bytes option"
  body_text :: "string option"

text \<open>An element of \<open>xml.etree.ElementTree\<close>: its tag, its text and its children.\<close>

datatype element = Element (tag: string) (etext: "string option") (subelements: "element list")

text \<open>
  A node of a parsed HTML document (BeautifulSoup): a tag with its attributes and
  children, a string of visible text, or a string that \<open>get_text\<close> leaves out
  (a comment, a declaration).
\<close>

datatype html_node =
  Tag string "(string \<times> string) list" "html_node list"
  | NavigableString string
  | Comment string

text \<open>
  Everything the script asks of its libraries and of the network, as one record.
  The network answers as a function of the URL alone.
  \<^item> \<open>request_get\<close>: \<open>context.request.get(url, timeout=...)\<close>; \<open>None\<close> when the call
    raises or the response is falsy.
  \<^item> \<open>page_content\<close>: \<open>page.goto(url, ...)\<close> followed by \<open>page.content() or ""\<close>;
    \<open>None\<close> when one of them raises.
  \<^item> \<open>gzip_decompress\<close>: \<open>gzip.decompress\<close>; \<open>None\<close> when it raises.
  \<^item> \<open>decode_utf8_ignore\<close>: \<open>bytes.decode("utf-8", errors="ignore")\<close>.
  \<^item> \<open>fromstring\<close>: \<open>ET.fromstring\<close>, the root element or the exception it raises:
    \<open>ParseError\<close> on a payload that is not well-formed, \<open>ValueError\<close> or \<open>LookupError\<close>
    on one that declares an encoding the parser does not support or does not know.
  \<^item> \<open>soup\<close>: \<open>BeautifulSoup(html, "lxml")\<close>, the top-level nodes of the document.
  \<^item> \<open>urlparse\<close>, \<open>urljoin\<close>, \<open>urldefrag\<close>: the functions of \<open>urllib.parse\<close>, which
    raise \<open>ValueError\<close> on some inputs; \<open>urldefrag\<close> gives the URL without its fragment.

  The interpreter raises \<open>RecursionError\<close> in a call that would nest deeper than its
  recursion limit allows. The script recurses in \<open>fetch_all_sitemap_urls\<close> only,
  and there the model counts the stack: \<open>frames\<close> is the number of nested calls for
  which the limit still leaves room. What a call of a library needs is a matter of
  the library and of the interpreter's version, and comes with the environment:
  \<^item> \<open>request_frames\<close>: the nesting that the \<open>try\<close> block of \<open>fetch_bytes_with_request\<close>
    needs below the frame of that function (\<open>context.request.get\<close>, \<open>resp.status\<close>,
    \<open>resp.body()\<close>).
  \<^item> \<open>gzip_frames\<close>: the nesting that \<open>gzip.decompress(content)\<close> needs.
  \<^item> \<open>block_frames\<close>: the nesting that
    \<open>is_probably_cloudflare_block(content.decode(...))\<close> needs, its own frame included.
  \<^item> \<open>parse_frames\<close>: the nesting that \<open>parse_sitemap_xml(content)\<close> needs on a
    payload, its own frame included.
\<close>

record env =
  request_get :: "string \<Rightarrow> response option"
  page_content :: "string \<Rightarrow> string option"
  gzip_decompress :: "bytes \<Rightarrow> bytes option"
  decode_utf8_ignore :: "bytes \<Rightarrow> string"
  fromstring :: "bytes \<Rightarrow> error + element"
  soup :: "string \<Rightarrow> html_node list"
  urlparse :: "string \<Rightarrow> error + url_parts"
  urljoin :: "string \<Rightarrow> string \<Rightarrow> error + string"
  urldefrag :: "string \<Rightarrow> error + string"
  request_frames :: nat
  gzip_frames :: nat
  block_frames :: nat
  parse_frames :: "bytes \<Rightarrow> nat"

text \<open>
  A call that nests \<open>need\<close> frames deep, made outside every \<open>try\<close> where \<open>frames\<close>
  are left: it raises \<open>RecursionError\<close> when it does not fit.
\<close>

definition call :: "nat \<Rightarrow> nat \<Rightarrow> error + 'a \<Rightarrow> error + 'a" where
  "call frames need result = (if frames < need then Inl RecursionError else result)"

section \<open>The script\<close>

subsection \<open>normalize_base_url, same_host\<close>

definition normalize_base_url :: "env \<Rightarrow> string \<Rightarrow> error + string" where
  "normalize_base_url env url0 =
     (let url = strip url0 in
      if url = [] then Inl (ValueError ''website is leeg'')
      else
        let url = (if \<not> startswith url ''http://'' \<and> \<not> startswith url ''https://''
                   then ''https://'' @ url else url)
        in and_then (urlparse env url) (\<lambda>parsed.
             if netloc parsed = [] then Inl (ValueError ''website url is ongeldig'')
             else Inr (scheme parsed @ ''://'' @ netloc parsed @ ''/'')))"

definition same_host :: "env \<Rightarrow> string \<Rightarrow> string \<Rightarrow> error + bool" where
  "same_host env a b =
     and_then (urlparse env a) (\<lambda>pa.
     and_then (urlparse env b) (\<lambda>pb.
       Inr (lower (netloc pa) = lower (netloc pb))))"

subsection \<open>is_probably_cloudflare_block, parse_robots_for_sitemaps\<close>

definition is_probably_cloudflare_block :: "string \<Rightarrow> bool" where
  "is_probably_cloudflare_block html_or_text =
     (let t = lower html_or_text in
        contains t ''attention required''
        \<or> contains t ''cloudflare''
        \<or> contains t ''please enable cookies''
        \<or> contains t ''sorry, you have been blocked'')"

text \<open>One pass of the loop over the lines of robots.txt.\<close>

definition robots_line :: "string list \<Rightarrow> string \<Rightarrow> string list" where
  "robots_line sitemaps line0 =
     (let line = strip line0 in
      if line = [] then sitemaps
      else if startswith (lower line) ''sitemap:'' then
        (let parts = split1 CHR '':'' line in
         if length parts = 2 then
           (let sm = strip (parts ! 1) in
            if sm \<noteq> [] then sitemaps @ [sm] else sitemaps)
         else sitemaps)
      else sitemaps)"

definition parse_robots_for_sitemaps :: "string \<Rightarrow> string list" where
  "parse_robots_for_sitemaps robots_text = foldl robots_line [] (splitlines robots_text)"

subsection \<open>strip_ns, parse_sitemap_xml\<close>

definition strip_ns :: "string \<Rightarrow> string" where
  "strip_ns t = (if CHR ''}'' \<in> set t then last (split1 CHR ''}'' t) else t)"

text \<open>\<open>Element.iter()\<close>: the element and its descendants, in document order.\<close>

fun iter :: "element \<Rightarrow> element list" where
  "iter (Element t x cs) = Element t x cs # concat (map iter cs)"

text \<open>
  The test of the ElementPath step \<open>{*}name\<close>: the tag is \<open>name\<close>, in no namespace
  or in any.
\<close>

definition any_ns_match :: "string \<Rightarrow> string \<Rightarrow> bool" where
  "any_ns_match name t = (t = name \<or> endswith t (CHR ''}'' # name))"

text \<open>\<open>root.findall(".//{*}name")\<close>: the matching descendants of the root, itself excluded.\<close>

definition findall_descendants :: "string \<Rightarrow> element \<Rightarrow> element list" where
  "findall_descendants name root_el =
     filter (\<lambda>e. any_ns_match name (tag e)) (concat (map iter (subelements root_el)))"

text \<open>\<open>el.find("{*}name")\<close>: the first matching child, if any.\<close>

definition find_child :: "string \<Rightarrow> element \<Rightarrow> element option" where
  "find_child name el = find (\<lambda>e. any_ns_match name (tag e)) (subelements el)"

text \<open>One pass of either loop of \<open>parse_sitemap_xml\<close>: the \<open>loc\<close> of one element.\<close>

definition append_loc :: "string list \<Rightarrow> element \<Rightarrow> string list" where
  "append_loc acc el =
     (case find_child ''loc'' el of
        None \<Rightarrow> acc
      | Some loc_el \<Rightarrow>
          (case etext loc_el of
             None \<Rightarrow> acc
           | Some t \<Rightarrow> if t \<noteq> [] then acc @ [strip t] else acc))"

text \<open>
  \<open>except ET.ParseError\<close> catches that exception and no other: what else
  \<open>ET.fromstring\<close> raises leaves \<open>parse_sitemap_xml\<close>.
\<close>

definition parse_sitemap_xml :: "env \<Rightarrow> bytes \<Rightarrow> error + string list \<times> string list" where
  "parse_sitemap_xml env xml_bytes =
     (case fromstring env xml_bytes of
        Inl (ParseError msg) \<Rightarrow> Inr ([], [])
      | Inl e \<Rightarrow> Inl e
      | Inr root_el \<Rightarrow>
          (let root_tag = lower (strip_ns (tag root_el)) in
           if root_tag = ''urlset'' then
             Inr (foldl append_loc [] (findall_descendants ''url'' root_el), [])
           else if root_tag = ''sitemapindex'' then
             Inr ([], foldl append_loc [] (findall_descendants ''sitemap'' root_el))
           else Inr ([], [])))"

subsection \<open>fetch_bytes_with_request, fetch_text_with_request\<close>

text \<open>
  \<open>fetch_bytes_with_request\<close> is called in the recursion, where \<open>frames\<close> are left.
  The call itself takes one frame. A \<open>RecursionError\<close> below it is raised inside the
  \<open>try\<close> block, whose \<open>except Exception\<close> turns it into \<open>None\<close>.
\<close>

definition fetch_bytes_with_request :: "nat \<Rightarrow> env \<Rightarrow> string \<Rightarrow> error + bytes option" where
  "fetch_bytes_with_request frames env url =
     call frames 1
       (Inr (if frames - 1 < request_frames env then None
             else
               (case request_get env url of
                  None \<Rightarrow> None
                | Some resp \<Rightarrow>
                    if status resp \<noteq> 200 then None
                    else (case body resp of
                            None \<Rightarrow> None
                          | Some b \<Rightarrow> if b = [] then None else Some b))))"

text \<open>
  \<open>fetch_text_with_request\<close> is called once, from \<open>try_discover_sitemaps\<close>, at a fixed
  depth of the stack, which is taken to fit.
\<close>

definition fetch_text_with_request :: "env \<Rightarrow> string \<Rightarrow> string option" where
  "fetch_text_with_request env url =
     (case request_get env url of
        None \<Rightarrow> None
      | Some resp \<Rightarrow>
          if status resp \<noteq> 200 then None
          else (case body_text resp of
                  None \<Rightarrow> None
                | Some txt \<Rightarrow> if txt = [] then None else Some txt))"

subsection \<open>try_discover_sitemaps\<close>

definition DEFAULT_SITEMAP_CANDIDATES :: "string list" where
  "DEFAULT_SITEMAP_CANDIDATES =
     [''/sitemap.xml'', ''/sitemap_index.xml'', ''/sitemap-index.xml'', ''/sitemap.xml.gz'']"

text \<open>A loop whose body may raise: the first exception ends it.\<close>

fun foldl_err :: "('b \<Rightarrow> 'a \<Rightarrow> error + 'b) \<Rightarrow> 'b \<Rightarrow> 'a list \<Rightarrow> error + 'b" where
  "foldl_err f acc [] = Inr acc"
| "foldl_err f acc (x # xs) = and_then (f acc x) (\<lambda>acc'. foldl_err f acc' xs)"

text \<open>
  One pass of a loop that keeps the first occurrence of each string: the set \<open>seen\<close>
  and the list built so far.
\<close>

definition keep_first :: "string set \<times> string list \<Rightarrow> string \<Rightarrow> string set \<times> string list" where
  "keep_first st u =
     (case st of (seen, unique) \<Rightarrow>
        if u \<notin> seen then (insert u seen, unique @ [u]) else (seen, unique))"

definition try_discover_sitemaps :: "env \<Rightarrow> string \<Rightarrow> error + string list" where
  "try_discover_sitemaps env base_url =
     and_then (urljoin env base_url ''robots.txt'') (\<lambda>robots_url.
       let robots_text = fetch_text_with_request env robots_url;
           discovered =
             (case robots_text of
                None \<Rightarrow> []
              | Some t \<Rightarrow>
                  if \<not> is_probably_cloudflare_block t then parse_robots_for_sitemaps t else [])
       in and_then
            (foldl_err
               (\<lambda>d p. and_then (urljoin env base_url (lstrip_chars ''/'' p)) (\<lambda>u. Inr (d @ [u])))
               discovered DEFAULT_SITEMAP_CANDIDATES)
            (\<lambda>discovered. Inr (snd (foldl keep_first ({}, []) discovered))))"

subsection \<open>fetch_all_sitemap_urls, discover_urls_from_sitemaps\<close>

text \<open>\<open>xs[:n]\<close> for a Python integer \<open>n\<close>: a negative \<open>n\<close> counts from the end.\<close>

definition slice_to :: "int \<Rightarrow> 'a list \<Rightarrow> 'a list" where
  "slice_to n xs = (if 0 \<le> n then take (nat n) xs else take (length xs - nat (- n)) xs)"

text \<open>
  The recursion follows child sitemaps with no bound of its own on the depth and no
  record of the sitemaps already seen; what ends it on an index that lists itself is
  the interpreter's recursion limit. The first argument is the number of frames that
  are left when the call is made: the call takes one, and the body runs with the
  rest. \<open>gzip.decompress\<close> is called in a \<open>try\<close> whose \<open>except Exception\<close> returns
  the empty list; the calls of \<open>is_probably_cloudflare_block\<close>, of
  \<open>parse_sitemap_xml\<close> and of \<open>fetch_all_sitemap_urls\<close> itself are in no \<open>try\<close>.
  \<open>resolve_children\<close> is the loop over the children, with the list \<open>all_urls\<close>
  built so far.
\<close>

fun fetch_all_sitemap_urls :: "nat \<Rightarrow> env \<Rightarrow> string \<Rightarrow> int \<Rightarrow> error + string list"
  and resolve_children :: "nat \<Rightarrow> env \<Rightarrow> int \<Rightarrow> string list \<Rightarrow> string list \<Rightarrow> error + string list"
where
  "fetch_all_sitemap_urls 0 env sitemap_url max_children = Inl RecursionError"
| "fetch_all_sitemap_urls (Suc frames) env sitemap_url max_children =
     and_then (fetch_bytes_with_request frames env sitemap_url) (\<lambda>raw.
       case raw of
         None \<Rightarrow> Inr []
       | Some raw \<Rightarrow>
           (case (if endswith sitemap_url ''.gz''
                  then (if frames < gzip_frames env then None else gzip_decompress env raw)
                  else Some raw) of
              None \<Rightarrow> Inr []
            | Some content \<Rightarrow>
                and_then (call frames (block_frames env)
                            (Inr (is_probably_cloudflare_block (decode_utf8_ignore env content))))
                  (\<lambda>blocked.
                     if blocked then Inr []
                     else
                       and_then (call frames (parse_frames env content) (parse_sitemap_xml env content))
                         (\<lambda>parsed.
                            case parsed of
                              (urls, children) \<Rightarrow>
                                if urls \<noteq> [] then Inr urls
                                else resolve_children frames env max_children
                                       (slice_to max_children children) []))))"
| "resolve_children frames env max_children [] all_urls = Inr all_urls"
| "resolve_children frames env max_children (child # rest) all_urls =
     and_then (fetch_all_sitemap_urls frames env child max_children) (\<lambda>urls.
       resolve_children frames env max_children rest (all_urls @ urls))"

text \<open>The cleaning loop of \<open>discover_urls_from_sitemaps\<close>, one pass.\<close>

definition clean_step :: "string set \<times> string list \<Rightarrow> string \<Rightarrow> string set \<times> string list" where
  "clean_step st u0 =
     (let u = strip u0 in
      if u = [] then st else keep_first st u)"

text \<open>
  The loop over the candidates: it returns at the first one that gives URLs.
  \<open>frames\<close> are left where \<open>fetch_all_sitemap_urls\<close> is called.
\<close>

fun first_sitemap_with_urls :: "nat \<Rightarrow> env \<Rightarrow> string list \<Rightarrow> error + string list" where
  "first_sitemap_with_urls frames env [] = Inr []"
| "first_sitemap_with_urls frames env (sm # candidates) =
     and_then (fetch_all_sitemap_urls frames env sm 50) (\<lambda>urls.
       if urls \<noteq> [] then Inr (snd (foldl clean_step ({}, []) urls))
       else first_sitemap_with_urls frames env candidates)"

definition discover_urls_from_sitemaps :: "nat \<Rightarrow> env \<Rightarrow> string \<Rightarrow> error + string list" where
  "discover_urls_from_sitemaps frames env base_url =
     and_then (try_discover_sitemaps env base_url) (first_sitemap_with_urls frames env)"

subsection \<open>extract_internal_links, fallback_crawl_internal\<close>

text \<open>A node and its descendants, in document order.\<close>

fun nodes_of :: "html_node \<Rightarrow> html_node list" where
  "nodes_of (Tag n attrs cs) = Tag n attrs cs # concat (map nodes_of cs)"
| "nodes_of (NavigableString s) = [NavigableString s]"
| "nodes_of (Comment s) = [Comment s]"

text \<open>
  \<open>soup.find_all("a", href=True)\<close>, each anchor read with \<open>a.get("href") or ""\<close>:
  the \<open>href\<close> values of the anchors that have one, in document order.
\<close>

fun anchor_href :: "html_node \<Rightarrow> string list" where
  "anchor_href (Tag n attrs cs) =
     (if n = ''a'' then (case map_of attrs ''href'' of Some h \<Rightarrow> [h] | None \<Rightarrow> []) else [])"
| "anchor_href (NavigableString s) = []"
| "anchor_href (Comment s) = []"

definition find_all_a_href :: "html_node list \<Rightarrow> string list" where
  "find_all_a_href doc = concat (map anchor_href (concat (map nodes_of doc)))"

text \<open>One pass of the loop of \<open>extract_internal_links\<close>.\<close>

definition link_step :: "env \<Rightarrow> string \<Rightarrow> string \<Rightarrow> string list \<Rightarrow> string \<Rightarrow> error + string list" where
  "link_step env page_url base_url links href0 =
     (let href = strip href0 in
      if href = [] then Inr links
      else
        and_then (urljoin env page_url href) (\<lambda>absolute.
        and_then (urldefrag env absolute) (\<lambda>absolute.
        and_then (same_host env absolute base_url) (\<lambda>same.
          if \<not> same then Inr links
          else
            and_then (urlparse env absolute) (\<lambda>parsed.
              if scheme parsed \<notin> set [''http'', ''https''] then Inr links
              else Inr (links @ [absolute]))))))"

definition extract_internal_links :: "env \<Rightarrow> string \<Rightarrow> string \<Rightarrow> string \<Rightarrow> error + string list" where
  "extract_internal_links env html page_url base_url =
     foldl_err (link_step env page_url base_url) [] (find_all_a_href (soup env html))"

text \<open>
  The loop of \<open>fallback_crawl_internal\<close>, on the queue and the set \<open>visited\<close>. The
  set is kept as the list of its members in the order they were added; the loop adds
  a URL only when it is absent, so the list never repeats one. Python gives the
  members of the returned list in no fixed order.
\<close>

function crawl_loop :: "env \<Rightarrow> string \<Rightarrow> int \<Rightarrow> string list \<Rightarrow> string list \<Rightarrow> error + string list" where
  "crawl_loop env base_url limit [] visited = Inr visited"
| "crawl_loop env base_url limit (url # queue) visited =
     (if int (length visited) < limit then
        if url \<in> set visited then crawl_loop env base_url limit queue visited
        else
          (case page_content env url of
             None \<Rightarrow> crawl_loop env base_url limit queue (visited @ [url])
           | Some html \<Rightarrow>
               if is_probably_cloudflare_block html then
                 crawl_loop env base_url limit queue (visited @ [url])
               else
                 (case extract_internal_links env html url base_url of
                    Inl e \<Rightarrow> Inl e
                  | Inr found \<Rightarrow>
                      crawl_loop env base_url limit
                        (queue @ filter (\<lambda>u. u \<notin> set (visited @ [url])) found)
                        (visited @ [url])))
      else Inr visited)"
  by pat_completeness auto
termination
  by (relation "measures [\<lambda>(env, base_url, limit, queue, visited). nat (limit - int (length visited)),
                          \<lambda>(env, base_url, limit, queue, visited). length queue]") auto

definition fallback_crawl_internal :: "env \<Rightarrow> string \<Rightarrow> int \<Rightarrow> error + string list" where
  "fallback_crawl_internal env base_url limit = crawl_loop env base_url limit [base_url] []"

subsection \<open>word_count_from_html, compute_average_words\<close>

text \<open>
  \<open>for tag in soup(names): tag.decompose()\<close>: every tag with one of the names leaves
  the document, with all it holds.
\<close>

fun decompose_all :: "string list \<Rightarrow> html_node \<Rightarrow> html_node list" where
  "decompose_all names (Tag n attrs cs) =
     (if n \<in> set names then [] else [Tag n attrs (concat (map (decompose_all names) cs))])"
| "decompose_all names (NavigableString s) = [NavigableString s]"
| "decompose_all names (Comment s) = [Comment s]"

text \<open>\<open>soup.get_text(separator=sep)\<close>: the strings of the document, joined.\<close>

fun all_strings :: "html_node \<Rightarrow> string list" where
  "all_strings (Tag n attrs cs) = concat (map all_strings cs)"
| "all_strings (NavigableString s) = [s]"
| "all_strings (Comment s) = []"

definition get_text :: "string \<Rightarrow> html_node list \<Rightarrow> string" where
  "get_text sep doc = join sep (concat (map all_strings doc))"

text \<open>\<open>re.sub(r"\s+", " ", text)\<close>: every run of whitespace becomes one space.\<close>

function collapse_whitespace :: "string \<Rightarrow> string" where
  "collapse_whitespace [] = []"
| "collapse_whitespace (c # cs) =
     (if isspace c then CHR '' '' # collapse_whitespace (dropWhile isspace cs)
      else c # collapse_whitespace cs)"
  by pat_completeness auto
termination
  by (relation "measure length") (auto simp: length_dropWhile_le less_Suc_eq_le)

text \<open>
  The pattern \<open>\b[\w\<Agrave>-\<yuml>]+\b\<close> on a \<open>str\<close>. \<open>\w\<close> is Unicode-aware there: it holds of
  every alphanumeric character (\<open>str.isalnum\<close>) and of the underscore. Below 256
  these are the ASCII letters and digits, the underscore, the letters of Latin-1
  (192 to 255 without the signs 215 and 247), and the characters 170, 178, 179,
  181, 185, 186, 188, 189, 190.
\<close>

definition is_word_char :: "char \<Rightarrow> bool" where
  "is_word_char c =
     (let n = code c in
        (48 \<le> n \<and> n \<le> 57) \<or> (65 \<le> n \<and> n \<le> 90) \<or> n = 95 \<or> (97 \<le> n \<and> n \<le> 122)
        \<or> n \<in> {170, 178, 179, 181, 185, 186, 188, 189, 190}
        \<or> (192 \<le> n \<and> n \<le> 255 \<and> n \<noteq> 215 \<and> n \<noteq> 247))"

text \<open>The character class \<open>[\w\<Agrave>-\<yuml>]\<close>.\<close>

definition in_class :: "char \<Rightarrow> bool" where
  "in_class c = (is_word_char c \<or> (192 \<le> code c \<and> code c \<le> 255))"

text \<open>
  \<open>\b\<close> after the first \<open>k\<close> characters of \<open>s\<close>, for \<open>k\<close> at least 1: one of the
  characters on its two sides is a word character and the other is not (the end of
  the text is not).
\<close>

definition ends_at_boundary :: "string \<Rightarrow> nat \<Rightarrow> bool" where
  "ends_at_boundary s k = (is_word_char (s ! (k - 1)) \<noteq> (k < length s \<and> is_word_char (s ! k)))"

text \<open>
  The length of the match of \<open>[\w\<Agrave>-\<yuml>]+\b\<close> at the start of \<open>s\<close>: the repetition is
  greedy, so the lengths are tried from the longest run of class characters down.
\<close>

definition longest_match :: "string \<Rightarrow> nat option" where
  "longest_match s = find (ends_at_boundary s) (rev [1..<Suc (length (takeWhile in_class s))])"

text \<open>
  \<open>len(re.findall(pattern, text))\<close>: the scan goes from left to right and resumes
  after each match; \<open>prev\<close> says whether the character before the position is a
  word character.
\<close>

fun findall_count :: "bool \<Rightarrow> string \<Rightarrow> nat" where
  "findall_count prev [] = 0"
| "findall_count prev (c # cs) =
     (if prev \<noteq> is_word_char c then
        (case longest_match (c # cs) of
           Some k \<Rightarrow> Suc (findall_count (is_word_char ((c # cs) ! (k - 1))) (drop (k - 1) cs))
         | None \<Rightarrow> findall_count (is_word_char c) cs)
      else findall_count (is_word_char c) cs)"

definition word_count_from_html :: "env \<Rightarrow> string \<Rightarrow> nat" where
  "word_count_from_html env html =
     (let doc = concat (map (decompose_all [''script'', ''style'', ''noscript'']) (soup env html));
          text = get_text '' '' doc;
          text = strip (collapse_whitespace text)
      in if text = [] then 0 else findall_count False text)"

text \<open>One pass of the loop over the sample.\<close>

definition sample_step :: "env \<Rightarrow> nat list \<Rightarrow> string \<Rightarrow> nat list" where
  "sample_step env counts u =
     (case page_content env u of
        None \<Rightarrow> counts
      | Some html \<Rightarrow>
          if is_probably_cloudflare_block html then counts
          else
            (let wc = word_count_from_html env html in
             if wc > 0 then counts @ [wc] else counts))"

text \<open>
  The quotient of the two floats is modelled by the quotient of the reals: the
  rounding of the floating-point division is left out.
\<close>

definition compute_average_words :: "env \<Rightarrow> string list \<Rightarrow> int \<Rightarrow> real" where
  "compute_average_words env urls sample_size =
     (let sample = slice_to sample_size urls;
          counts = foldl (sample_step env) [] sample
      in if counts = [] then 0 else real (sum_list counts) / real (length counts))"

subsection \<open>main\<close>

record Result =
  website :: string
  total_pages :: nat
  average_words :: real
  result_id :: string

text \<open>\<open>[u for u in urls if same_host(u, base_url)]\<close>, where \<open>same_host\<close> may raise.\<close>

definition keep_same_host :: "env \<Rightarrow> string \<Rightarrow> string list \<Rightarrow> error + string list" where
  "keep_same_host env base_url urls =
     foldl_err (\<lambda>acc u. and_then (same_host env u base_url) (\<lambda>same. Inr (if same then acc @ [u] else acc)))
       [] urls"

text \<open>
  \<open>round(x, 2)\<close>, on the reals: to the nearest hundredth, a tie to the even one.
  Python rounds the exact value of the float. \<open>main\<close> rounds the quotient of a sum
  of counts by their number, 1 to 10: its hundredfold lies halfway between two
  integers only when the number is 8, and such a quotient is held exactly by the
  float, so that the float and the real round alike.
\<close>

definition round_half_even :: "real \<Rightarrow> int" where
  "round_half_even y =
     (let f = \<lfloor>y\<rfloor>; d = y - of_int f in
      if d < 1 / 2 then f else if 1 / 2 < d then f + 1 else if even f then f else f + 1)"

definition round2 :: "real \<Rightarrow> real" where
  "round2 x = of_int (round_half_even (x * 100)) / 100"

text \<open>
  \<open>main\<close> on \<open>sys.argv\<close>: the exit status with the \<open>Result\<close> it printed, or the
  exception that leaves it. \<open>frames\<close> are left where \<open>discover_urls_from_sitemaps\<close>
  calls \<open>fetch_all_sitemap_urls\<close>. The warm-up navigation
  \<open>open_homepage_for_cookies\<close> swallows every failure and gives no value; it is
  left out.
\<close>

definition main :: "nat \<Rightarrow> env \<Rightarrow> string list \<Rightarrow> error + int \<times> Result option" where
  "main frames env argv =
     (if length argv < 3 then Inr (2, None)
      else
        let given_id = strip (argv ! 1);
            given_website = strip (argv ! 2)
        in
          and_then (normalize_base_url env given_website) (\<lambda>base_url.
          and_then (discover_urls_from_sitemaps frames env base_url) (\<lambda>urls.
          and_then (if urls = [] then fallback_crawl_internal env base_url 2000 else Inr urls) (\<lambda>urls.
          and_then (keep_same_host env base_url urls) (\<lambda>urls.
            let urls = sort (remdups urls);
                total_pages = length urls;
                average_words = compute_average_words env urls 10
            in Inr (0, Some \<lparr>website = given_website,
                              total_pages = total_pages,
                              average_words = round2 average_words,
                              result_id = given_id\<rparr>))))))"

section \<open>A reference model of \<open>urllib.parse\<close>, and example environments\<close>

text \<open>
  The script's functions take \<open>urllib.parse\<close> from the environment. Concrete
  runs need a concrete parser: \<open>urlparse_ref\<close> follows CPython's \<open>urlsplit\<close> and
  \<open>urlparse\<close> for the scheme, the network location and the path. A host in
  brackets is only checked for its two brackets.
\<close>

definition scheme_char :: "char \<Rightarrow> bool" where
  "scheme_char c =
     (let n = code c in
        (48 \<le> n \<and> n \<le> 57) \<or> (65 \<le> n \<and> n \<le> 90) \<or> (97 \<le> n \<and> n \<le> 122)
        \<or> c \<in> set ''+-.'')"

definition ascii_alpha :: "char \<Rightarrow> bool" where
  "ascii_alpha c = (let n = code c in (65 \<le> n \<and> n \<le> 90) \<or> (97 \<le> n \<and> n \<le> 122))"

definition uses_params :: "string list" where
  "uses_params =
     [[], ''ftp'', ''hdl'', ''prospero'', ''http'', ''imap'', ''https'', ''shttp'', ''rtsp'',
      ''rtspu'', ''sip'', ''sips'', ''mms'', ''sftp'', ''tel'']"

text \<open>The path without the parameters of its last segment (\<open>_splitparams\<close>).\<close>

definition drop_params :: "string \<Rightarrow> string" where
  "drop_params p =
     (if CHR ''/'' \<in> set p then
        (let last_seg = rev (takeWhile (\<lambda>c. c \<noteq> CHR ''/'') (rev p));
             front = take (length p - length last_seg) p
         in front @ takeWhile (\<lambda>c. c \<noteq> CHR '';'') last_seg)
      else takeWhile (\<lambda>c. c \<noteq> CHR '';'') p)"

definition urlparse_ref :: "string \<Rightarrow> error + url_parts" where
  "urlparse_ref url0 =
     (let url = filter (\<lambda>c. code c \<notin> {9, 10, 13}) (dropWhile (\<lambda>c. code c \<le> 32) url0);
          i = length (takeWhile (\<lambda>c. c \<noteq> CHR '':'') url);
          has_scheme = (CHR '':'' \<in> set url \<and> 0 < i \<and> ascii_alpha (hd url)
                        \<and> list_all scheme_char (take i url));
          sch = (if has_scheme then lower (take i url) else []);
          rest = (if has_scheme then drop (Suc i) url else url);
          has_netloc = startswith rest ''//'';
          nl = (if has_netloc then takeWhile (\<lambda>c. c \<notin> set ''/?#'') (drop 2 rest) else []);
          rest = (if has_netloc then dropWhile (\<lambda>c. c \<notin> set ''/?#'') (drop 2 rest) else rest)
      in if has_netloc \<and> ((CHR ''['' \<in> set nl) \<noteq> (CHR '']'' \<in> set nl)) then
           Inl (ValueError ''Invalid IPv6 URL'')
         else
           (let rest = takeWhile (\<lambda>c. c \<noteq> CHR ''#'') rest;
                rest = takeWhile (\<lambda>c. c \<noteq> CHR ''?'') rest;
                p = (if sch \<in> set uses_params then drop_params rest else rest)
            in Inr \<lparr>scheme = sch, netloc = nl, path = p\<rparr>))"

text \<open>
  \<open>urldefrag\<close>: the URL up to its first \<open>#\<close>. \<open>urljoin_plain\<close> is \<open>urljoin\<close> where the
  examples use it, on a base that ends in a slash and a relative path of one plain
  segment: the segment is appended.
\<close>

definition urldefrag_ref :: "string \<Rightarrow> error + string" where
  "urldefrag_ref url = Inr (takeWhile (\<lambda>c. c \<noteq> CHR ''#'') url)"

definition urljoin_plain :: "string \<Rightarrow> string \<Rightarrow> error + string" where
  "urljoin_plain base ref = Inr (base @ ref)"

text \<open>
  A site that answers nothing: every request and every navigation fails. The
  nesting of the library calls is that of CPython 3.11 for the standard library
  (\<open>gzip.decompress\<close> 3, the block test 2, \<open>parse_sitemap_xml\<close> at most 5); the
  browser library's request is taken to nest 8 deep.
\<close>

definition offline :: env where
  "offline =
     \<lparr>request_get = (\<lambda>url. None),
      page_content = (\<lambda>url. None),
      gzip_decompress = (\<lambda>b. None),
      decode_utf8_ignore = (\<lambda>b. b),
      fromstring = (\<lambda>b. Inl (ParseError ''syntax error'')),
      soup = (\<lambda>html. []),
      urlparse = urlparse_ref,
      urljoin = urljoin_plain,
      urldefrag = urldefrag_ref,
      request_frames = 8,
      gzip_frames = 3,
      block_frames = 2,
      parse_frames = (\<lambda>b. 5)\<rparr>"

text \<open>
  \<open>urljoin\<close> where the examples use it: a reference that begins with \<open>http://\<close> or
  \<open>https://\<close> stands for itself, and a relative path of one plain segment is
  appended to a base that ends in a slash.
\<close>

definition urljoin_example :: "string \<Rightarrow> string \<Rightarrow> error + string" where
  "urljoin_example base ref =
     (if startswith ref ''http://'' \<or> startswith ref ''https://'' then Inr ref else Inr (base @ ref))"

text \<open>
  A site with a robots.txt that names a sitemap that is gone and a sitemap index.
  The index lists a plain sitemap and a compressed one. Compressed bytes are written \<open>gzip:\<close> followed by
  the bytes they decompress to. \<open>/sitemap.xml\<close> answers 404.
\<close>

definition robots_txt :: string where
  "robots_txt =
     ''User-agent: *'' @ [char_of (10 :: nat)]
     @ ''Sitemap: https://example.com/old.xml'' @ [char_of (10 :: nat)]
     @ ''sitemap:https://example.com/sitemap_index.xml'' @ [char_of (10 :: nat)]"

definition index_xml :: bytes where
  "index_xml = ''<sitemapindex><sitemap><loc>https://example.com/sitemap-pages.xml</loc></sitemap><sitemap><loc>https://example.com/sitemap-posts.xml.gz</loc></sitemap></sitemapindex>''"

definition index_tree :: element where
  "index_tree =
     Element ''{http://www.sitemaps.org/schemas/sitemap/0.9}sitemapindex'' None
       [Element ''{http://www.sitemaps.org/schemas/sitemap/0.9}sitemap'' None
          [Element ''{http://www.sitemaps.org/schemas/sitemap/0.9}loc''
             (Some ''https://example.com/sitemap-pages.xml'') []],
        Element ''{http://www.sitemaps.org/schemas/sitemap/0.9}sitemap'' None
          [Element ''{http://www.sitemaps.org/schemas/sitemap/0.9}loc''
             (Some ''https://example.com/sitemap-posts.xml.gz'') []]]"

definition pages_xml :: bytes where
  "pages_xml = ''<urlset><url><loc>https://example.com/</loc></url><url><loc> https://example.com/about </loc></url><url><loc></loc></url><url/></urlset>''"

definition pages_tree :: element where
  "pages_tree =
     Element ''urlset'' None
       [Element ''url'' None [Element ''loc'' (Some ''https://example.com/'') []],
        Element ''url'' None [Element ''loc'' (Some '' https://example.com/about '') []],
        Element ''url'' None [Element ''loc'' None []],
        Element ''url'' None []]"

definition posts_xml :: bytes where
  "posts_xml = ''<URLSET><url><loc>https://example.com/post/1</loc></url></URLSET>''"

definition posts_tree :: element where
  "posts_tree =
     Element ''URLSET'' None
       [Element ''url'' None [Element ''loc'' (Some ''https://example.com/post/1'') []]]"

definition posts_gz :: bytes where
  "posts_gz = ''gzip:'' @ posts_xml"

definition home_html :: string where
  "home_html = ''<html><head><script>ignore me entirely</script></head><body><p>Hello world</p></body></html>''"

definition home_tree :: "html_node list" where
  "home_tree =
     [Tag ''html'' []
        [Tag ''head'' [] [Tag ''script'' [] [NavigableString ''ignore me entirely'']],
         Tag ''body'' [] [Tag ''p'' [] [NavigableString ''Hello world'']]]]"

definition about_html :: string where
  "about_html = ''<html><body><h1>About  us</h1><!-- draft --><p>We   write, test and ship.</p></body></html>''"

definition about_tree :: "html_node list" where
  "about_tree =
     [Tag ''html'' []
        [Tag ''body'' []
           [Tag ''h1'' [] [NavigableString ''About  us''],
            Comment '' draft '',
            Tag ''p'' [] [NavigableString ''We   write, test and ship.'']]]]"

definition example_site :: env where
  "example_site =
     \<lparr>request_get = (\<lambda>url.
        if url = ''https://example.com/robots.txt'' then
          Some \<lparr>status = 200, body = Some robots_txt, body_text = Some robots_txt\<rparr>
        else if url = ''https://example.com/sitemap_index.xml'' then
          Some \<lparr>status = 200, body = Some index_xml, body_text = Some index_xml\<rparr>
        else if url = ''https://example.com/sitemap-pages.xml'' then
          Some \<lparr>status = 200, body = Some pages_xml, body_text = Some pages_xml\<rparr>
        else if url = ''https://example.com/sitemap-posts.xml.gz'' then
          Some \<lparr>status = 200, body = Some posts_gz, body_text = None\<rparr>
        else if url = ''https://example.com/sitemap.xml'' then
          Some \<lparr>status = 404, body = Some ''Not Found'', body_text = Some ''Not Found''\<rparr>
        else None),
      page_content = (\<lambda>url.
        if url = ''https://example.com/'' then Some home_html
        else if url = ''https://example.com/about'' then Some about_html
        else None),
      gzip_decompress = (\<lambda>b. if startswith b ''gzip:'' then Some (drop 5 b) else None),
      decode_utf8_ignore = (\<lambda>b. b),
      fromstring = (\<lambda>b.
        if b = index_xml then Inr index_tree
        else if b = pages_xml then Inr pages_tree
        else if b = posts_xml then Inr posts_tree
        else Inl (ParseError ''syntax error'')),
      soup = (\<lambda>html.
        if html = home_html then home_tree
        else if html = about_html then about_tree
        else []),
      urlparse = urlparse_ref,
      urljoin = urljoin_example,
      urldefrag = urldefrag_ref,
      request_frames = 8,
      gzip_frames = 3,
      block_frames = 2,
      parse_frames = (\<lambda>b. 5)\<rparr>"

text \<open>
  A site without sitemaps, for the crawl. Its home page links to \<open>about\<close>, to
  another host, and to \<open>contact\<close> on its own host written in capitals and with a
  fragment. The page \<open>about\<close> links back to the home page and to a page that
  answers with a block notice. The navigation to \<open>contact\<close> fails.
\<close>

definition start_html :: string where
  "start_html = ''<html><body><a href=about>About</a> <a href=https://other.org/>Other</a> <a href=https://EXAMPLE.com/contact#team>Contact</a> <a href>Nothing</a></body></html>''"

definition start_tree :: "html_node list" where
  "start_tree =
     [Tag ''html'' []
        [Tag ''body'' []
           [Tag ''a'' [(''href'', ''about'')] [NavigableString ''About''],
            NavigableString '' '',
            Tag ''a'' [(''href'', ''https://other.org/'')] [NavigableString ''Other''],
            NavigableString '' '',
            Tag ''a'' [(''href'', ''https://EXAMPLE.com/contact#team'')] [NavigableString ''Contact''],
            NavigableString '' '',
            Tag ''a'' [(''href'', [])] [NavigableString ''Nothing'']]]]"

definition second_html :: string where
  "second_html = ''<html><body><a href=https://example.com/>Home</a><a href=https://example.com/members>Members</a></body></html>''"

definition second_tree :: "html_node list" where
  "second_tree =
     [Tag ''html'' []
        [Tag ''body'' []
           [Tag ''a'' [(''href'', ''https://example.com/'')] [NavigableString ''Home''],
            Tag ''a'' [(''href'', ''https://example.com/members'')] [NavigableString ''Members'']]]]"

definition block_html :: string where
  "block_html = ''<html><head><title>Attention Required! | Cloudflare</title></head><body><a href=https://example.com/hidden>x</a></body></html>''"

definition link_site :: env where
  "link_site =
     \<lparr>request_get = (\<lambda>url. None),
      page_content = (\<lambda>url.
        if url = ''https://example.com/'' then Some start_html
        else if url = ''https://example.com/about'' then Some second_html
        else if url = ''https://example.com/members'' then Some block_html
        else None),
      gzip_decompress = (\<lambda>b. None),
      decode_utf8_ignore = (\<lambda>b. b),
      fromstring = (\<lambda>b. Inl (ParseError ''syntax error'')),
      soup = (\<lambda>html.
        if html = start_html then start_tree
        else if html = second_html then second_tree
        else []),
      urlparse = urlparse_ref,
      urljoin = urljoin_example,
      urldefrag = urldefrag_ref,
      request_frames = 8,
      gzip_frames = 3,
      block_frames = 2,
      parse_frames = (\<lambda>b. 5)\<rparr>"





text \<open>
  A sitemap that declares the encoding Shift_JIS. \<open>ET.fromstring\<close> raises
  \<open>ValueError\<close> on it: the parser supports no multi-byte encoding.
\<close>

definition sjis_xml :: bytes where
  "sjis_xml = ''<?xml version=\"1.0\" encoding=\"Shift_JIS\"?><urlset><url><loc>https://example.com/</loc></url></urlset>''"

definition sjis_site :: env where
  "sjis_site =
     offline\<lparr>request_get := (\<lambda>url.
        if url = ''https://example.com/sitemap.xml'' then
          Some \<lparr>status = 200, body = Some sjis_xml, body_text = Some sjis_xml\<rparr>
        else None),
      fromstring := (\<lambda>b.
        if b = sjis_xml then Inl (ValueError ''multi-byte encodings are not supported'')
        else Inl (ParseError ''syntax error''))\<rparr>"

section \<open>The contracts, in the words of the specification\<close>

subsection \<open>The sitemap parser\<close>

text \<open>
  The trimmed text of the \<open>loc\<close> of one element; nothing when the element has no
  \<open>loc\<close> or its \<open>loc\<close> has no text.
\<close>

definition loc_text :: "element \<Rightarrow> string list" where
  "loc_text el =
     (case find_child ''loc'' el of
        None \<Rightarrow> []
      | Some l \<Rightarrow> (case etext l of None \<Rightarrow> [] | Some t \<Rightarrow> if t = [] then [] else [strip t]))"

text \<open>The \<open>loc\<close> texts of the descendants with the given local name, in document order.\<close>

definition loc_texts :: "string \<Rightarrow> element \<Rightarrow> string list" where
  "loc_texts name r = concat (map loc_text (findall_descendants name r))"

text \<open>The local name of the root, whatever its namespace and the case of its letters.\<close>

definition root_is :: "string \<Rightarrow> element \<Rightarrow> bool" where
  "root_is name r = (lower (strip_ns (tag r)) = name)"

text \<open>
  The contract of \<open>parseSitemap\<close>: a payload that the parser does not take gives two
  empty lists, and no error.
\<close>

definition parseSitemap :: "env \<Rightarrow> bytes \<Rightarrow> string list \<times> string list" where
  "parseSitemap env payload =
     (case fromstring env payload of
        Inl e \<Rightarrow> ([], [])
      | Inr r \<Rightarrow>
          if root_is ''urlset'' r then (loc_texts ''url'' r, [])
          else if root_is ''sitemapindex'' r then ([], loc_texts ''sitemap'' r)
          else ([], []))"

subsection \<open>The fallback crawl\<close>

text \<open>
  What \<open>extract_internal_links\<close> lets through: a URL on the host of the base URL
  (the network locations compared without regard to case) whose scheme is \<open>http\<close>
  or \<open>https\<close>.
\<close>

definition linked :: "env \<Rightarrow> string \<Rightarrow> string \<Rightarrow> bool" where
  "linked env base_url u =
     (same_host env u base_url = Inr True
      \<and> (\<exists>p. urlparse env u = Inr p \<and> scheme p \<in> {''http'', ''https''}))"

subsection \<open>The sitemap resolver\<close>

text \<open>A list without its repetitions: each string stays where it first occurs.\<close>

definition dedup_first :: "string list \<Rightarrow> string list" where
  "dedup_first xs = rev (remdups (rev xs))"

text \<open>
  The sitemaps that robots.txt declares: none when the fetch fails or the text is
  classified as a block page.
\<close>

definition robots_sitemaps :: "env \<Rightarrow> string \<Rightarrow> string list" where
  "robots_sitemaps env robots_url =
     (case fetch_text_with_request env robots_url of
        None \<Rightarrow> []
      | Some t \<Rightarrow> if is_probably_cloudflare_block t then [] else parse_robots_for_sitemaps t)"

text \<open>
  What \<open>discoverViaSitemaps\<close> returns for the URLs of the first sitemap that gives
  some: trimmed, the empty ones dropped, without repetitions.
\<close>

definition normalized :: "string list \<Rightarrow> string list" where
  "normalized urls = dedup_first (filter (\<lambda>u. u \<noteq> []) (map strip urls))"


text \<open>
  What the page fetcher gives for a URL: the body of a response with status 200,
  when it is not empty.
\<close>

definition fetched :: "env \<Rightarrow> string \<Rightarrow> bytes option" where
  "fetched env url =
     (case request_get env url of
        None \<Rightarrow> None
      | Some resp \<Rightarrow>
          if status resp = 200 then (case body resp of None \<Rightarrow> None | Some b \<Rightarrow> if b = [] then None else Some b)
          else None)"

text \<open>
  The reference algorithm of \<open>resolveSitemapURLs\<close>, steps 1 to 5: fetch; decompress
  where \<open>gz\<close> says so; give up on a block page; parse, and return the leaf URLs
  when there are some; otherwise resolve the first \<open>maxChildren\<close> children and
  concatenate what they give, in order. The algorithm knows no stack. Its first
  argument bounds the depth of the recursion: \<open>None\<close> says that the bound was
  reached, \<open>Some\<close> that the algorithm ends within it.
\<close>

fun resolveSitemapURLs ::
  "(string \<Rightarrow> bool) \<Rightarrow> nat \<Rightarrow> env \<Rightarrow> string \<Rightarrow> nat \<Rightarrow> string list option" where
  "resolveSitemapURLs gz 0 env url maxChildren = None"
| "resolveSitemapURLs gz (Suc depth) env url maxChildren =
     (case fetched env url of
        None \<Rightarrow> Some []
      | Some raw \<Rightarrow>
          (case (if gz url then gzip_decompress env raw else Some raw) of
             None \<Rightarrow> Some []
           | Some payload \<Rightarrow>
               if is_probably_cloudflare_block (decode_utf8_ignore env payload) then Some []
               else if fst (parseSitemap env payload) \<noteq> [] then Some (fst (parseSitemap env payload))
               else
                 map_option concat
                   (those (map (\<lambda>child. resolveSitemapURLs gz depth env child maxChildren)
                             (take maxChildren (snd (parseSitemap env payload)))))))"


text \<open>
  The stack that one call of \<open>fetch_all_sitemap_urls\<close> needs for the calls of its
  body, the recursive ones apart, is at most \<open>k\<close>.
\<close>

definition level_fits :: "env \<Rightarrow> nat \<Rightarrow> bool" where
  "level_fits env k =
     (Suc (request_frames env) \<le> k \<and> gzip_frames env \<le> k \<and> block_frames env \<le> k
      \<and> (\<forall>b. parse_frames env b \<le> k))"

text \<open>The parser takes every payload or raises \<open>ParseError\<close>, the exception that is caught.\<close>

definition parser_caught :: "env \<Rightarrow> bool" where
  "parser_caught env = (\<forall>b e. fromstring env b = Inl e \<longrightarrow> (\<exists>msg. e = ParseError msg))"

subsection \<open>The sample of pages\<close>

text \<open>
  The word count that one page of the sample contributes: none when the navigation
  fails, when the page is classified as a block page, or when it has no words.
\<close>

definition page_words :: "env \<Rightarrow> string \<Rightarrow> nat option" where
  "page_words env u =
     (case page_content env u of
        None \<Rightarrow> None
      | Some html \<Rightarrow>
          if is_probably_cloudflare_block html then None
          else if word_count_from_html env html = 0 then None
          else Some (word_count_from_html env html))"

definition mean :: "nat list \<Rightarrow> real" where
  "mean counts = (if counts = [] then 0 else real (sum_list counts) / real (length counts))"

section \<open>Properties\<close>

subsection \<open>Stripping whitespace\<close>

lemma rstrip_last: "rstrip s \<noteq> [] \<Longrightarrow> \<not> isspace (last (rstrip s))"
  unfolding rstrip_def
  by (metis hd_dropWhile last_rev rev_is_Nil_conv)

lemma rstrip_self: "s = [] \<or> \<not> isspace (last s) \<Longrightarrow> rstrip s = s"
  unfolding rstrip_def
  by (metis dropWhile_eq_self_iff hd_rev rev_is_Nil_conv rev_rev_ident)

lemma lstrip_self: "s = [] \<or> \<not> isspace (hd s) \<Longrightarrow> lstrip s = s"
  unfolding lstrip_def by (simp add: dropWhile_eq_self_iff)

lemma lstrip_hd: "lstrip s \<noteq> [] \<Longrightarrow> \<not> isspace (hd (lstrip s))"
  unfolding lstrip_def by (rule hd_dropWhile)

lemma rstrip_prefix: "\<exists>r. s = rstrip s @ r"
  unfolding rstrip_def
  by (metis rev_append rev_rev_ident takeWhile_dropWhile_id)

lemma rstrip_hd: "rstrip s \<noteq> [] \<Longrightarrow> hd (rstrip s) = hd s"
  using rstrip_prefix[of s] by (metis hd_append2)

lemma strip_idem: "strip (strip s) = strip s"
proof -
  let ?t = "lstrip s"
  have a: "rstrip ?t = [] \<or> \<not> isspace (hd (rstrip ?t))"
    by (metis lstrip_hd rstrip_hd rstrip_def rev.simps(1) dropWhile.simps(1))
  have b: "rstrip ?t = [] \<or> \<not> isspace (last (rstrip ?t))"
    using rstrip_last by blast
  show ?thesis
    unfolding strip_def using a b by (simp add: lstrip_self rstrip_self)
qed

lemma strip_last: "strip s \<noteq> [] \<Longrightarrow> \<not> isspace (last (strip s))"
  unfolding strip_def by (rule rstrip_last)

lemma strip_hd: "strip s \<noteq> [] \<Longrightarrow> \<not> isspace (hd (strip s))"
  unfolding strip_def by (metis lstrip_hd rstrip_hd rstrip_def rev.simps(1) dropWhile.simps(1))

lemma strip_self: "s = [] \<or> (\<not> isspace (hd s) \<and> \<not> isspace (last s)) \<Longrightarrow> strip s = s"
  unfolding strip_def by (auto simp: lstrip_self rstrip_self)

lemma not_space_h: "\<not> isspace CHR ''h''"
  by (simp add: isspace_def code_def)

lemma strip_https: "strip u \<noteq> [] \<Longrightarrow> strip (''https://'' @ strip u) = ''https://'' @ strip u"
  by (rule strip_self) (simp add: not_space_h strip_last)

lemma startswith_https: "startswith (''https://'' @ s) ''https://''"
  by (simp add: startswith_def)

subsection \<open>fallback_crawl_internal\<close>

lemma and_then_Inr: "and_then r f = Inr y \<longleftrightarrow> (\<exists>x. r = Inr x \<and> f x = Inr y)"
  by (cases r) (auto simp: and_then_def)

lemma foldl_err_invariant:
  assumes "foldl_err f acc xs = Inr r" and "I acc"
    and "\<And>a x a'. f a x = Inr a' \<Longrightarrow> I a \<Longrightarrow> I a'"
  shows "I r"
  using assms(1,2)
proof (induction xs arbitrary: acc)
  case Nil
  then show ?case by simp
next
  case (Cons x xs)
  from Cons.prems(1) obtain a where a: "f acc x = Inr a" and r: "foldl_err f a xs = Inr r"
    by (auto simp: and_then_Inr)
  from assms(3)[OF a Cons.prems(2)] have "I a" .
  with Cons.IH[OF r] show ?case .
qed

lemma link_step_linked:
  assumes "link_step env page_url base_url links href = Inr links'"
    and "\<forall>u \<in> set links. linked env base_url u"
  shows "\<forall>u \<in> set links'. linked env base_url u"
  using assms
  unfolding link_step_def Let_def
  by (auto simp: and_then_Inr linked_def split: if_splits)

lemma extract_internal_links_linked:
  assumes "extract_internal_links env html page_url base_url = Inr found"
  shows "\<forall>u \<in> set found. linked env base_url u"
  using assms unfolding extract_internal_links_def
  by (rule foldl_err_invariant[where I = "\<lambda>ls. \<forall>u \<in> set ls. linked env base_url u"])
     (auto dest: link_step_linked)

lemma crawl_loop_invariant:
  "crawl_loop env base_url limit queue visited = Inr us \<Longrightarrow>
   \<forall>u \<in> set queue \<union> set visited. u = base_url \<or> linked env base_url u \<Longrightarrow>
   distinct visited \<Longrightarrow> length visited \<le> nat limit \<Longrightarrow>
   (\<forall>u \<in> set us. u = base_url \<or> linked env base_url u)
   \<and> distinct us \<and> length us \<le> nat limit"
proof (induction env base_url limit queue visited rule: crawl_loop.induct)
  case (1 env base_url limit visited)
  then show ?case by simp
next
  case (2 env base_url limit url queue visited)
  note run = "2.prems"(1) and ok = "2.prems"(2) and dist = "2.prems"(3) and bound = "2.prems"(4)
  show ?case
  proof (cases "int (length visited) < limit")
    case False
    with run have "us = visited" by simp
    with ok dist bound show ?thesis by simp
  next
    case lt: True
    show ?thesis
    proof (cases "url \<in> set visited")
      case True
      with lt run have r: "crawl_loop env base_url limit queue visited = Inr us" by simp
      have q: "\<forall>u \<in> set queue \<union> set visited. u = base_url \<or> linked env base_url u"
        using ok by simp
      from "2.IH"(1)[OF lt True r q dist bound] show ?thesis .
    next
      case fresh: False
      have d: "distinct (visited @ [url])" using fresh dist by simp
      have b: "length (visited @ [url]) \<le> nat limit" using lt by simp
      have q: "\<forall>u \<in> set queue \<union> set (visited @ [url]). u = base_url \<or> linked env base_url u"
        using ok by simp
      show ?thesis
      proof (cases "page_content env url")
        case None
        with lt fresh run
        have r: "crawl_loop env base_url limit queue (visited @ [url]) = Inr us" by simp
        from "2.IH"(2)[OF lt fresh None r q d b] show ?thesis .
      next
        case (Some html)
        show ?thesis
        proof (cases "is_probably_cloudflare_block html")
          case True
          with lt fresh Some run
          have r: "crawl_loop env base_url limit queue (visited @ [url]) = Inr us" by simp
          from "2.IH"(3)[OF lt fresh Some True r q d b] show ?thesis .
        next
          case nb: False
          from run lt fresh Some nb obtain found where
            found: "extract_internal_links env html url base_url = Inr found"
            and res: "crawl_loop env base_url limit
                        (queue @ filter (\<lambda>u. u \<notin> set (visited @ [url])) found) (visited @ [url]) = Inr us"
            by (cases "extract_internal_links env html url base_url") simp_all
          have q': "\<forall>u \<in> set (queue @ filter (\<lambda>u. u \<notin> set (visited @ [url])) found) \<union> set (visited @ [url]).
                      u = base_url \<or> linked env base_url u"
            using ok extract_internal_links_linked[OF found] by auto
          from "2.IH"(4)[OF lt fresh Some nb found res q' d b] show ?thesis .
        qed
      qed
    qed
  qed
qed



text \<open>The crawl on the example site, step by step.\<close>

lemma and_then_weak_cong: "r = r' \<Longrightarrow> and_then r f = and_then r' f"
  by simp

lemma and_then_simps: "and_then (Inl e) f = Inl e" "and_then (Inr x) f = f x"
  by (simp_all add: and_then_def)

lemma env_link_site:
  "urlparse link_site = urlparse_ref" "urljoin link_site = urljoin_example" "urldefrag link_site = urldefrag_ref"
  "soup link_site start_html = start_tree" "soup link_site second_html = second_tree"
  by (simp_all add: link_site_def) code_simp+

lemma link_site_strings:
  "strip ''about'' = ''about''"
  "strip ''https://other.org/'' = ''https://other.org/''"
  "strip ''https://EXAMPLE.com/contact#team'' = ''https://EXAMPLE.com/contact#team''"
  "strip [] = []"
  "urljoin_example ''https://example.com/'' ''about'' = Inr ''https://example.com/about''"
  "urljoin_example ''https://example.com/'' ''https://other.org/'' = Inr ''https://other.org/''"
  "urljoin_example ''https://example.com/'' ''https://EXAMPLE.com/contact#team'' = Inr ''https://EXAMPLE.com/contact#team''"
  "urldefrag_ref ''https://example.com/about'' = Inr ''https://example.com/about''"
  "urldefrag_ref ''https://other.org/'' = Inr ''https://other.org/''"
  "urldefrag_ref ''https://EXAMPLE.com/contact#team'' = Inr ''https://EXAMPLE.com/contact''"
  "urlparse_ref ''https://example.com/'' = Inr \<lparr>scheme = ''https'', netloc = ''example.com'', path = ''/''\<rparr>"
  "urlparse_ref ''https://example.com/about'' = Inr \<lparr>scheme = ''https'', netloc = ''example.com'', path = ''/about''\<rparr>"
  "urlparse_ref ''https://other.org/'' = Inr \<lparr>scheme = ''https'', netloc = ''other.org'', path = ''/''\<rparr>"
  "urlparse_ref ''https://EXAMPLE.com/contact'' = Inr \<lparr>scheme = ''https'', netloc = ''EXAMPLE.com'', path = ''/contact''\<rparr>"
  "lower ''example.com'' = ''example.com''"
  "lower ''EXAMPLE.com'' = ''example.com''"
  "lower ''other.org'' = ''other.org''"
  by code_simp+

lemma links_of_start: "extract_internal_links link_site start_html ''https://example.com/'' ''https://example.com/''
   = Inr [''https://example.com/about'', ''https://EXAMPLE.com/contact'']"
  by (simp add: extract_internal_links_def find_all_a_href_def start_tree_def link_step_def same_host_def
        and_then_simps env_link_site link_site_strings cong: and_then_weak_cong)

lemma links_of_second: "extract_internal_links link_site second_html ''https://example.com/about'' ''https://example.com/''
   = Inr [''https://example.com/'', ''https://example.com/members'']"
proof -
  have leaf2:
    "strip ''https://example.com/'' = ''https://example.com/''"
    "strip ''https://example.com/members'' = ''https://example.com/members''"
    "urljoin_example ''https://example.com/about'' ''https://example.com/'' = Inr ''https://example.com/''"
    "urljoin_example ''https://example.com/about'' ''https://example.com/members'' = Inr ''https://example.com/members''"
    "urldefrag_ref ''https://example.com/'' = Inr ''https://example.com/''"
    "urldefrag_ref ''https://example.com/members'' = Inr ''https://example.com/members''"
    "urlparse_ref ''https://example.com/members'' = Inr \<lparr>scheme = ''https'', netloc = ''example.com'', path = ''/members''\<rparr>"
    by code_simp+
  show ?thesis
    by (simp add: extract_internal_links_def find_all_a_href_def second_tree_def link_step_def same_host_def
          and_then_simps env_link_site link_site_strings leaf2 cong: and_then_weak_cong)
qed

lemma link_site_pages:
  "page_content link_site ''https://example.com/'' = Some start_html"
  "page_content link_site ''https://example.com/about'' = Some second_html"
  "page_content link_site ''https://EXAMPLE.com/contact'' = None"
  "page_content link_site ''https://example.com/members'' = Some block_html"
  "\<not> is_probably_cloudflare_block start_html"
  "\<not> is_probably_cloudflare_block second_html"
  "is_probably_cloudflare_block block_html"
  by code_simp+

lemma crawl_link_site_all:
  "fallback_crawl_internal link_site ''https://example.com/'' 2000
     = Inr [''https://example.com/'', ''https://example.com/about'',
            ''https://EXAMPLE.com/contact'', ''https://example.com/members'']"
  by (simp add: fallback_crawl_internal_def link_site_pages links_of_start links_of_second)

lemma crawl_link_site_two:
  "fallback_crawl_internal link_site ''https://example.com/'' 2
     = Inr [''https://example.com/'', ''https://example.com/about'']"
  by (simp add: fallback_crawl_internal_def link_site_pages links_of_start links_of_second)

text \<open>
  C4. Whatever the base URL, the limit and the environment, every URL that the
  fallback crawl returns is the base URL itself or a link on the host of the base
  URL with the scheme \<open>http\<close> or \<open>https\<close>: no returned URL has a network location
  that differs from that of the base URL, compared without regard to case. The
  crawl returns each URL once and never more than \<open>limit\<close> of them (none when the
  limit is not positive), however many links the pages hold.
\<close>

theorem fallback_crawl_same_host_bounded:
  assumes "fallback_crawl_internal env base_url limit = Inr us"
  shows "(\<forall>u \<in> set us. u = base_url \<or> linked env base_url u)
         \<and> (\<forall>u \<in> set us. \<forall>pu pb. urlparse env u = Inr pu \<and> urlparse env base_url = Inr pb
                \<longrightarrow> lower (netloc pu) = lower (netloc pb))
         \<and> distinct us \<and> length us \<le> nat limit"
proof -
  from assms have run: "crawl_loop env base_url limit [base_url] [] = Inr us"
    by (simp add: fallback_crawl_internal_def)
  have inv: "(\<forall>u \<in> set us. u = base_url \<or> linked env base_url u) \<and> distinct us \<and> length us \<le> nat limit"
    by (rule crawl_loop_invariant[OF run]) simp_all
  have hosts: "\<forall>u \<in> set us. \<forall>pu pb. urlparse env u = Inr pu \<and> urlparse env base_url = Inr pb
                \<longrightarrow> lower (netloc pu) = lower (netloc pb)"
  proof (intro ballI allI impI)
    fix u pu pb
    assume u: "u \<in> set us" and p: "urlparse env u = Inr pu \<and> urlparse env base_url = Inr pb"
    from inv u have "u = base_url \<or> linked env base_url u" by blast
    then show "lower (netloc pu) = lower (netloc pb)"
    proof
      assume "u = base_url"
      with p have "Inr pu = (Inr pb :: error + url_parts)" by metis
      then show ?thesis by simp
    next
      assume "linked env base_url u"
      then have "same_host env u base_url = Inr True" by (simp add: linked_def)
      with p show ?thesis by (simp add: same_host_def and_then_def)
    qed
  qed
  from inv hosts show ?thesis by blast
qed

text \<open>
  The theorem on the example site: four pages can be reached, and with the limit 2
  the crawl returns two of them, both on the host of the base URL; the link to
  another host is never followed.
\<close>

theorem fallback_crawl_same_host_bounded_witness:
  "fallback_crawl_internal link_site ''https://example.com/'' 2
     = Inr [''https://example.com/'', ''https://example.com/about'']
   \<and> fallback_crawl_internal link_site ''https://example.com/'' 2000
     = Inr [''https://example.com/'', ''https://example.com/about'',
            ''https://EXAMPLE.com/contact'', ''https://example.com/members'']
   \<and> linked link_site ''https://example.com/'' ''https://example.com/about''
   \<and> linked link_site ''https://example.com/'' ''https://EXAMPLE.com/contact''
   \<and> length [''https://example.com/'', ''https://example.com/about''] \<le> nat 2"
proof -
  from fallback_crawl_same_host_bounded[OF crawl_link_site_two]
  have a: "linked link_site ''https://example.com/'' ''https://example.com/about''"
    and b: "length [''https://example.com/'', ''https://example.com/about''] \<le> nat 2"
    by simp_all
  from fallback_crawl_same_host_bounded[OF crawl_link_site_all]
  have c: "linked link_site ''https://example.com/'' ''https://EXAMPLE.com/contact''"
    by simp
  from a b c crawl_link_site_two crawl_link_site_all show ?thesis by blast
qed

subsection \<open>normalize_base_url\<close>

lemma startswith_lower: "startswith s p \<Longrightarrow> startswith (lower s) (lower p)"
  by (metis length_map lower_def startswith_def take_map)

lemma lower_http: "lower ''http://'' = ''http://''" "lower ''https://'' = ''https://''"
  by code_simp+

lemma no_scheme_prefix:
  "\<not> startswith (lower s) ''http://'' \<and> \<not> startswith (lower s) ''https://''
   \<Longrightarrow> \<not> startswith s ''http://'' \<and> \<not> startswith s ''https://''"
  using startswith_lower[of s "''http://''"] startswith_lower[of s "''https://''"]
  by (auto simp only: lower_http)

text \<open>
  C6, amended. \<open>normalize_base_url\<close> works on the input stripped of whitespace. It
  raises \<open>ValueError\<close> when that is empty. When it has no prefix \<open>http://\<close> or
  \<open>https://\<close>, in whatever case of the letters, \<open>https://\<close> is put in front of it;
  when it begins with \<open>http://\<close> or \<open>https://\<close> as the script writes them, it is
  parsed as it is; nothing is said of a prefix written with capitals. The function
  raises \<open>ValueError\<close> when the parsed URL has no network location, and returns
  \<open>scheme://netloc/\<close> otherwise, the network location as the parser gives it: its
  letters keep their case. So \<open>example.com\<close> gives \<open>https://example.com/\<close>, the
  empty input fails, \<open>http://\<close> fails, and \<open>https://Example.com/x\<close> gives
  \<open>https://Example.com/\<close>.
\<close>

theorem normalize_base_url_amended:
  "normalize_base_url env url = normalize_base_url env (strip url)
   \<and> (strip url = [] \<longrightarrow> normalize_base_url env url = Inl (ValueError ''website is leeg''))
   \<and> (strip url \<noteq> [] \<and> \<not> startswith (lower (strip url)) ''http://''
          \<and> \<not> startswith (lower (strip url)) ''https://''
        \<longrightarrow> normalize_base_url env url =
              (case urlparse env (''https://'' @ strip url) of
                 Inl e \<Rightarrow> Inl e
               | Inr p \<Rightarrow>
                   if netloc p = [] then Inl (ValueError ''website url is ongeldig'')
                   else Inr (scheme p @ ''://'' @ netloc p @ ''/'')))
   \<and> (startswith (strip url) ''http://'' \<or> startswith (strip url) ''https://''
        \<longrightarrow> normalize_base_url env url =
              (case urlparse env (strip url) of
                 Inl e \<Rightarrow> Inl e
               | Inr p \<Rightarrow>
                   if netloc p = [] then Inl (ValueError ''website url is ongeldig'')
                   else Inr (scheme p @ ''://'' @ netloc p @ ''/'')))
   \<and> normalize_base_url offline ''example.com'' = Inr ''https://example.com/''
   \<and> normalize_base_url offline [] = Inl (ValueError ''website is leeg'')
   \<and> normalize_base_url offline ''http://'' = Inl (ValueError ''website url is ongeldig'')
   \<and> normalize_base_url offline ''https://Example.com/x'' = Inr ''https://Example.com/''"
proof -
  have trim: "normalize_base_url env url = normalize_base_url env (strip url)"
    by (simp add: normalize_base_url_def strip_idem)
  have empty: "strip url = [] \<longrightarrow> normalize_base_url env url = Inl (ValueError ''website is leeg'')"
    by (simp add: normalize_base_url_def)
  have prepend: "strip url \<noteq> [] \<and> \<not> startswith (lower (strip url)) ''http://''
          \<and> \<not> startswith (lower (strip url)) ''https://''
        \<longrightarrow> normalize_base_url env url =
              (case urlparse env (''https://'' @ strip url) of
                 Inl e \<Rightarrow> Inl e
               | Inr p \<Rightarrow>
                   if netloc p = [] then Inl (ValueError ''website url is ongeldig'')
                   else Inr (scheme p @ ''://'' @ netloc p @ ''/''))"
  proof (intro impI)
    assume h: "strip url \<noteq> [] \<and> \<not> startswith (lower (strip url)) ''http://''
          \<and> \<not> startswith (lower (strip url)) ''https://''"
    then have n: "\<not> startswith (strip url) ''http://'' \<and> \<not> startswith (strip url) ''https://''"
      using no_scheme_prefix by blast
    show "normalize_base_url env url =
              (case urlparse env (''https://'' @ strip url) of
                 Inl e \<Rightarrow> Inl e
               | Inr p \<Rightarrow>
                   if netloc p = [] then Inl (ValueError ''website url is ongeldig'')
                   else Inr (scheme p @ ''://'' @ netloc p @ ''/''))"
      unfolding normalize_base_url_def Let_def and_then_def using h n by simp
  qed
  have keep: "startswith (strip url) ''http://'' \<or> startswith (strip url) ''https://''
        \<longrightarrow> normalize_base_url env url =
              (case urlparse env (strip url) of
                 Inl e \<Rightarrow> Inl e
               | Inr p \<Rightarrow>
                   if netloc p = [] then Inl (ValueError ''website url is ongeldig'')
                   else Inr (scheme p @ ''://'' @ netloc p @ ''/''))"
    unfolding normalize_base_url_def Let_def and_then_def
    by (auto simp: startswith_def)
  have e1: "normalize_base_url offline ''example.com'' = Inr ''https://example.com/''"
    by code_simp
  have e2: "normalize_base_url offline [] = Inl (ValueError ''website is leeg'')"
    by code_simp
  have e3: "normalize_base_url offline ''https://Example.com/x'' = Inr ''https://Example.com/''"
    by code_simp
  have e4: "normalize_base_url offline ''http://'' = Inl (ValueError ''website url is ongeldig'')"
    by code_simp
  from trim empty prepend keep e1 e2 e3 e4 show ?thesis by blast
qed

text \<open>The theorem at three inputs: one to be completed, one blank, one with its scheme.\<close>

theorem normalize_base_url_amended_witness:
  "normalize_base_url offline ''  example.com '' = Inr ''https://example.com/''
   \<and> normalize_base_url offline ''   '' = Inl (ValueError ''website is leeg'')
   \<and> normalize_base_url offline ''http://a.com/x'' = Inr ''http://a.com/''"
proof -
  have h1: "strip ''  example.com '' \<noteq> [] \<and> \<not> startswith (lower (strip ''  example.com '')) ''http://''
              \<and> \<not> startswith (lower (strip ''  example.com '')) ''https://''"
    by code_simp
  have c1: "(case urlparse offline (''https://'' @ strip ''  example.com '') of
                 Inl e \<Rightarrow> Inl e
               | Inr p \<Rightarrow>
                   if netloc p = [] then Inl (ValueError ''website url is ongeldig'')
                   else Inr (scheme p @ ''://'' @ netloc p @ ''/'')) = Inr ''https://example.com/''"
    by code_simp
  have h2: "strip ''   '' = []" by code_simp
  have h3: "startswith (strip ''http://a.com/x'') ''http://'' \<or> startswith (strip ''http://a.com/x'') ''https://''"
    by code_simp
  have c3: "(case urlparse offline (strip ''http://a.com/x'') of
                 Inl e \<Rightarrow> Inl e
               | Inr p \<Rightarrow>
                   if netloc p = [] then Inl (ValueError ''website url is ongeldig'')
                   else Inr (scheme p @ ''://'' @ netloc p @ ''/'')) = Inr ''http://a.com/''"
    by code_simp
  from normalize_base_url_amended[of offline "''  example.com ''"] h1
  have "normalize_base_url offline ''  example.com '' =
          (case urlparse offline (''https://'' @ strip ''  example.com '') of
                 Inl e \<Rightarrow> Inl e
               | Inr p \<Rightarrow>
                   if netloc p = [] then Inl (ValueError ''website url is ongeldig'')
                   else Inr (scheme p @ ''://'' @ netloc p @ ''/''))"
    by blast
  then have a: "normalize_base_url offline ''  example.com '' = Inr ''https://example.com/''"
    unfolding c1 .
  from normalize_base_url_amended[of offline "''   ''"] h2
  have b: "normalize_base_url offline ''   '' = Inl (ValueError ''website is leeg'')"
    by blast
  from normalize_base_url_amended[of offline "''http://a.com/x''"] h3
  have "normalize_base_url offline ''http://a.com/x'' =
          (case urlparse offline (strip ''http://a.com/x'') of
                 Inl e \<Rightarrow> Inl e
               | Inr p \<Rightarrow>
                   if netloc p = [] then Inl (ValueError ''website url is ongeldig'')
                   else Inr (scheme p @ ''://'' @ netloc p @ ''/''))"
    by blast
  then have c: "normalize_base_url offline ''http://a.com/x'' = Inr ''http://a.com/''"
    unfolding c3 .
  from a b c show ?thesis by blast
qed

text \<open>
  C6 as stated fails. The host of the returned URL is not put in lower case:
  \<open>https://Example.com/x\<close> gives \<open>https://Example.com/\<close>. And the example of the
  claim does not give \<open>https://example.com/\<close>: the test for a scheme compares with
  lower-case letters only, so \<open>https://\<close> is put in front of
  \<open>HTTPS://Example.com/x\<close>, and the network location of the result is \<open>HTTPS:\<close>.
\<close>

theorem normalize_base_url_counterexample:
  "normalize_base_url offline ''https://Example.com/x'' = Inr ''https://Example.com/''
   \<and> normalize_base_url offline ''https://Example.com/x'' \<noteq> Inr ''https://example.com/''
   \<and> normalize_base_url offline ''HTTPS://Example.com/x'' = Inr ''https://HTTPS:/''
   \<and> normalize_base_url offline ''HTTPS://Example.com/x'' \<noteq> Inr ''https://example.com/''"
  by code_simp

subsection \<open>parse_sitemap_xml\<close>

lemma foldl_append_loc: "foldl append_loc acc els = acc @ concat (map loc_text els)"
  by (induction els arbitrary: acc)
     (auto simp: append_loc_def loc_text_def split: option.splits)

lemma parse_sitemap_xml_caught:
  assumes "\<forall>e. fromstring env b = Inl e \<longrightarrow> (\<exists>msg. e = ParseError msg)"
  shows "parse_sitemap_xml env b = Inr (parseSitemap env b)"
proof (cases "fromstring env b")
  case (Inl e)
  with assms obtain msg where "e = ParseError msg" by blast
  with Inl show ?thesis by (simp add: parse_sitemap_xml_def parseSitemap_def)
next
  case (Inr r)
  then show ?thesis
    by (simp add: parse_sitemap_xml_def parseSitemap_def Let_def root_is_def loc_texts_def
          foldl_append_loc)
qed


subsection \<open>The stack\<close>

lemma call_fits: "need \<le> frames \<Longrightarrow> call frames need r = r"
  by (simp add: call_def)

lemma fetch_bytes_fits:
  "Suc (request_frames env) \<le> frames \<Longrightarrow> fetch_bytes_with_request frames env url = Inr (fetched env url)"
  by (auto simp: fetch_bytes_with_request_def call_def fetched_def split: option.splits)


text \<open>One call whose body has room for its calls: the stack plays no part but in the children.\<close>

lemma fetch_all_fits:
  assumes "level_fits env k" "k \<le> frames"
  shows "fetch_all_sitemap_urls (Suc frames) env url mc =
     (case fetched env url of
        None \<Rightarrow> Inr []
      | Some raw \<Rightarrow>
          (case (if endswith url ''.gz'' then gzip_decompress env raw else Some raw) of
             None \<Rightarrow> Inr []
           | Some content \<Rightarrow>
               if is_probably_cloudflare_block (decode_utf8_ignore env content) then Inr []
               else
                 and_then (parse_sitemap_xml env content) (\<lambda>parsed.
                   case parsed of
                     (urls, children) \<Rightarrow>
                       if urls \<noteq> [] then Inr urls
                       else resolve_children frames env mc (slice_to mc children) [])))"
proof -
  from assms have r: "Suc (request_frames env) \<le> frames" and g: "\<not> frames < gzip_frames env"
    and b: "block_frames env \<le> frames" and p: "\<And>c. parse_frames env c \<le> frames"
    by (auto simp: level_fits_def intro: order_trans)
  show ?thesis
    by (simp add: fetch_bytes_fits[OF r] g call_fits[OF b] call_fits[OF p] and_then_simps
          split: option.splits)
qed

subsection \<open>fetch_all_sitemap_urls\<close>

lemma slice_to_nat: "slice_to (int k) xs = take k xs"
  by (simp add: slice_to_def)

lemma resolve_children_all:
  "list_all2 (\<lambda>c us. fetch_all_sitemap_urls frames env c mc = Inr us) cs uss
   \<Longrightarrow> resolve_children frames env mc cs acc = Inr (acc @ concat uss)"
  by (induction cs uss arbitrary: acc rule: list_all2_induct) (simp_all add: and_then_simps)

lemma those_map_Some:
  "those (map f cs) = Some uss \<Longrightarrow> list_all2 (\<lambda>c us. f c = Some us) cs uss"
  by (induction cs arbitrary: uss) (auto split: option.splits)

text \<open>
  Where the reference algorithm ends within a depth for which the stack has room,
  and the parser raises nothing that is not caught, the function returns what the
  algorithm gives.
\<close>

lemma fetch_all_refines:
  assumes fits: "level_fits env k" and caught: "parser_caught env"
  shows "resolveSitemapURLs (\<lambda>u. endswith u ''.gz'') depth env url m = Some us
         \<Longrightarrow> depth + k \<le> frames
         \<Longrightarrow> fetch_all_sitemap_urls frames env url (int m) = Inr us"
proof (induction depth arbitrary: url us frames)
  case 0
  then show ?case by simp
next
  case (Suc d)
  from Suc.prems(2) obtain f where f: "frames = Suc f" and room: "d + k \<le> f"
    by (cases frames) auto
  then have kf: "k \<le> f" by simp
  have parse: "\<And>c. parse_sitemap_xml env c = Inr (parseSitemap env c)"
    using caught by (intro parse_sitemap_xml_caught) (auto simp: parser_caught_def)
  have children: "resolve_children f env (int m) (take m cs) [] = Inr (concat uss)"
    if "those (map (\<lambda>child. resolveSitemapURLs (\<lambda>u. endswith u ''.gz'') d env child m) (take m cs)) = Some uss"
    for cs uss
  proof -
    from those_map_Some[OF that]
    have "list_all2 (\<lambda>c us. resolveSitemapURLs (\<lambda>u. endswith u ''.gz'') d env c m = Some us) (take m cs) uss" .
    then have "list_all2 (\<lambda>c us. fetch_all_sitemap_urls f env c (int m) = Inr us) (take m cs) uss"
      by (rule list_all2_mono) (rule Suc.IH[OF _ room])
    from resolve_children_all[OF this, of "[]"] show ?thesis by simp
  qed
  from Suc.prems(1) show ?case
    unfolding f fetch_all_fits[OF fits kf]
    by (auto simp: parse and_then_simps slice_to_nat children split: option.splits if_splits prod.splits)
qed






text \<open>The resolution of the sitemaps of the example site, step by step.\<close>

lemma env_example_site:
  "urlparse example_site = urlparse_ref" "urljoin example_site = urljoin_example"
  "urldefrag example_site = urldefrag_ref" "decode_utf8_ignore example_site b = b"
  by (simp_all add: example_site_def)

lemma example_site_fits: "level_fits example_site 9"
  by (simp add: level_fits_def example_site_def)

lemma example_site_caught: "parser_caught example_site"
  by (simp add: parser_caught_def example_site_def)

lemma example_site_fetches:
  "fetch_text_with_request example_site ''https://example.com/robots.txt'' = Some robots_txt"
  "fetched example_site ''https://example.com/sitemap_index.xml'' = Some index_xml"
  "fetched example_site ''https://example.com/sitemap-pages.xml'' = Some pages_xml"
  "fetched example_site ''https://example.com/sitemap-posts.xml.gz'' = Some posts_gz"
  "fetched example_site ''https://example.com/sitemap.xml'' = None"
  "fetched example_site ''https://example.com/sitemap-index.xml'' = None"
  "fetched example_site ''https://example.com/sitemap.xml.gz'' = None"
  "gzip_decompress example_site posts_gz = Some posts_xml"
  "fetched example_site ''https://example.com/old.xml'' = None"
  by code_simp+

lemma example_site_suffixes:
  "\<not> endswith ''https://example.com/sitemap_index.xml'' ''.gz''"
  "\<not> endswith ''https://example.com/sitemap-pages.xml'' ''.gz''"
  "endswith ''https://example.com/sitemap-posts.xml.gz'' ''.gz''"
  by code_simp+

lemma example_site_not_blocked:
  "\<not> is_probably_cloudflare_block robots_txt"
  "\<not> is_probably_cloudflare_block index_xml"
  "\<not> is_probably_cloudflare_block pages_xml"
  "\<not> is_probably_cloudflare_block posts_xml"
  by code_simp+

lemma example_site_parses:
  "parse_sitemap_xml example_site index_xml
     = Inr ([], [''https://example.com/sitemap-pages.xml'', ''https://example.com/sitemap-posts.xml.gz''])"
  "parse_sitemap_xml example_site pages_xml
     = Inr ([''https://example.com/'', ''https://example.com/about''], [])"
  "parse_sitemap_xml example_site posts_xml = Inr ([''https://example.com/post/1''], [])"
  "parse_robots_for_sitemaps robots_txt
     = [''https://example.com/old.xml'', ''https://example.com/sitemap_index.xml'']"
  by code_simp+

lemma example_site_contract:
  "parseSitemap example_site index_xml
     = ([], [''https://example.com/sitemap-pages.xml'', ''https://example.com/sitemap-posts.xml.gz''])"
  "parseSitemap example_site pages_xml
     = ([''https://example.com/'', ''https://example.com/about''], [])"
  "parseSitemap example_site posts_xml = ([''https://example.com/post/1''], [])"
  by code_simp+

lemma reference_example_index:
  "resolveSitemapURLs (\<lambda>u. endswith u ''.gz'') (Suc (Suc 0)) example_site
       ''https://example.com/sitemap_index.xml'' 50
     = Some [''https://example.com/'', ''https://example.com/about'', ''https://example.com/post/1'']"
  by (simp add: example_site_fetches example_site_suffixes example_site_not_blocked
        example_site_contract env_example_site)


lemma resolve_example_index:
  "11 \<le> frames \<Longrightarrow> fetch_all_sitemap_urls frames example_site ''https://example.com/sitemap_index.xml'' 50
     = Inr [''https://example.com/'', ''https://example.com/about'', ''https://example.com/post/1'']"
  using fetch_all_refines[OF example_site_fits example_site_caught reference_example_index, of frames]
  by simp

lemma resolve_example_none:
  assumes "fetched example_site u = None" "10 \<le> frames"
  shows "fetch_all_sitemap_urls frames example_site u 50 = Inr []"
proof -
  from assms(2) obtain f where f: "frames = Suc f" "9 \<le> f" by (cases frames) auto
  show ?thesis unfolding f(1) fetch_all_fits[OF example_site_fits f(2)] by (simp add: assms(1))
qed














subsection \<open>Sites without a robots.txt\<close>

lemma fetch_all_fetch_fails:
  "request_get env u = None \<Longrightarrow> 2 \<le> frames \<Longrightarrow> fetch_all_sitemap_urls frames env u mc = Inr []"
proof -
  assume g: "request_get env u = None" and "2 \<le> frames"
  then obtain f where f: "frames = Suc (Suc f)" by (cases frames; cases "frames - 1") auto
  have "fetch_bytes_with_request (Suc f) env u = Inr None"
    by (simp add: fetch_bytes_with_request_def call_def g)
  then show ?thesis unfolding f by (simp add: and_then_simps)
qed

lemma candidate_paths:
  "lstrip_chars ''/'' ''/sitemap.xml'' = ''sitemap.xml''"
  "lstrip_chars ''/'' ''/sitemap_index.xml'' = ''sitemap_index.xml''"
  "lstrip_chars ''/'' ''/sitemap-index.xml'' = ''sitemap-index.xml''"
  "lstrip_chars ''/'' ''/sitemap.xml.gz'' = ''sitemap.xml.gz''"
  by code_simp+

lemma keep_first_four:
  "snd (foldl keep_first ({}, [])
     [''https://example.com/sitemap.xml'', ''https://example.com/sitemap_index.xml'',
      ''https://example.com/sitemap-index.xml'', ''https://example.com/sitemap.xml.gz''])
   = [''https://example.com/sitemap.xml'', ''https://example.com/sitemap_index.xml'',
      ''https://example.com/sitemap-index.xml'', ''https://example.com/sitemap.xml.gz'']"
  by code_simp

lemma candidates_plain:
  assumes "urljoin env = urljoin_plain" "request_get env ''https://example.com/robots.txt'' = None"
  shows "try_discover_sitemaps env ''https://example.com/''
     = Inr [''https://example.com/sitemap.xml'', ''https://example.com/sitemap_index.xml'',
            ''https://example.com/sitemap-index.xml'', ''https://example.com/sitemap.xml.gz'']"
  using keep_first_four
  by (simp add: try_discover_sitemaps_def DEFAULT_SITEMAP_CANDIDATES_def urljoin_plain_def
        and_then_simps assms fetch_text_with_request_def candidate_paths)

lemma env_offline:
  "urlparse offline = urlparse_ref" "urljoin offline = urljoin_plain" "urldefrag offline = urldefrag_ref"
  "request_get offline u = None" "page_content offline u = None"
  by (simp_all add: offline_def)

lemma candidates_offline:
  "try_discover_sitemaps offline ''https://example.com/''
     = Inr [''https://example.com/sitemap.xml'', ''https://example.com/sitemap_index.xml'',
            ''https://example.com/sitemap-index.xml'', ''https://example.com/sitemap.xml.gz'']"
  by (rule candidates_plain) (simp_all add: env_offline)

lemma fetch_all_offline: "fetch_all_sitemap_urls 997 offline u mc = Inr []"
  by (rule fetch_all_fetch_fails) (simp_all add: env_offline)

lemma discover_offline:
  "discover_urls_from_sitemaps 997 offline ''https://example.com/'' = Inr []"
  by (simp add: discover_urls_from_sitemaps_def candidates_offline fetch_all_offline and_then_simps)

lemma crawl_offline:
  "fallback_crawl_internal offline ''https://example.com/'' 2000 = Inr [''https://example.com/'']"
  by (simp add: fallback_crawl_internal_def env_offline)

lemma offline_strings:
  "strip ''7'' = ''7''"
  "strip '' example.com'' = ''example.com''"
  "strip ''example.com'' = ''example.com''"
  "normalize_base_url offline ''example.com'' = Inr ''https://example.com/''"
  "urlparse_ref ''https://example.com/'' = Inr \<lparr>scheme = ''https'', netloc = ''example.com'', path = ''/''\<rparr>"
  by code_simp+

lemma same_host_offline:
  "keep_same_host offline ''https://example.com/'' [''https://example.com/''] = Inr [''https://example.com/'']"
  by (simp add: keep_same_host_def same_host_def and_then_simps env_offline offline_strings)

lemma average_offline: "compute_average_words offline [''https://example.com/''] 10 = 0"
  by (simp add: compute_average_words_def slice_to_def sample_step_def env_offline)

lemma round2_zero: "round2 0 = 0"
  by (simp add: round2_def round_half_even_def)

lemma main_offline:
  "main 997 offline [''site_metrics_playwright.py'', ''7'', '' example.com'']
     = Inr (0, Some \<lparr>website = ''example.com'', total_pages = 1, average_words = 0,
                      result_id = ''7''\<rparr>)"
  by (simp add: main_def offline_strings discover_offline crawl_offline same_host_offline
        average_offline round2_zero and_then_simps)

subsection \<open>A sitemap that declares a multi-byte encoding\<close>

lemma env_sjis_site:
  "urlparse sjis_site = urlparse_ref" "urljoin sjis_site = urljoin_plain"
  "request_get sjis_site ''https://example.com/robots.txt'' = None"
  "decode_utf8_ignore sjis_site b = b" "level_fits sjis_site 9"
  by (simp_all add: sjis_site_def offline_def level_fits_def)

lemma sjis_site_facts:
  "fetched sjis_site ''https://example.com/sitemap.xml'' = Some sjis_xml"
  "\<not> endswith ''https://example.com/sitemap.xml'' ''.gz''"
  "\<not> is_probably_cloudflare_block sjis_xml"
  "fromstring sjis_site sjis_xml = Inl (ValueError ''multi-byte encodings are not supported'')"
  "parse_sitemap_xml sjis_site sjis_xml = Inl (ValueError ''multi-byte encodings are not supported'')"
  "normalize_base_url sjis_site ''example.com'' = Inr ''https://example.com/''"
  by code_simp+

lemma fetch_all_sjis_site:
  "fetch_all_sitemap_urls 997 sjis_site ''https://example.com/sitemap.xml'' 50
     = Inl (ValueError ''multi-byte encodings are not supported'')"
proof -
  have n: "(997 :: nat) = Suc 996" and room: "(9 :: nat) \<le> 996" by simp_all
  show ?thesis
    unfolding n fetch_all_fits[OF env_sjis_site(5) room]
    by (simp add: sjis_site_facts env_sjis_site(4) and_then_simps)
qed

lemma candidates_sjis_site:
  "try_discover_sitemaps sjis_site ''https://example.com/''
     = Inr [''https://example.com/sitemap.xml'', ''https://example.com/sitemap_index.xml'',
            ''https://example.com/sitemap-index.xml'', ''https://example.com/sitemap.xml.gz'']"
  by (rule candidates_plain) (simp_all add: env_sjis_site)

text \<open>
  C5 fails on the code. On a payload that declares the encoding Shift_JIS the parser
  raises \<open>ValueError\<close>, which is no \<open>ParseError\<close>: \<open>parse_sitemap_xml\<close> does not catch
  it and gives no lists, \<open>fetch_all_sitemap_urls\<close> and \<open>discover_urls_from_sitemaps\<close>
  pass it on, and the run of \<open>main\<close> on a site whose \<open>/sitemap.xml\<close> is that payload
  ends with the exception.
\<close>

theorem parse_sitemap_xml_value_error:
  "fromstring sjis_site sjis_xml = Inl (ValueError ''multi-byte encodings are not supported'')
   \<and> parse_sitemap_xml sjis_site sjis_xml = Inl (ValueError ''multi-byte encodings are not supported'')
   \<and> fetch_all_sitemap_urls 997 sjis_site ''https://example.com/sitemap.xml'' 50
       = Inl (ValueError ''multi-byte encodings are not supported'')
   \<and> discover_urls_from_sitemaps 997 sjis_site ''https://example.com/''
       = Inl (ValueError ''multi-byte encodings are not supported'')
   \<and> main 997 sjis_site [''site_metrics_playwright.py'', ''7'', ''example.com'']
       = Inl (ValueError ''multi-byte encodings are not supported'')"
proof -
  have d: "discover_urls_from_sitemaps 997 sjis_site ''https://example.com/''
       = Inl (ValueError ''multi-byte encodings are not supported'')"
    by (simp add: discover_urls_from_sitemaps_def candidates_sjis_site fetch_all_sjis_site and_then_simps)
  have m: "main 997 sjis_site [''site_metrics_playwright.py'', ''7'', ''example.com'']
       = Inl (ValueError ''multi-byte encodings are not supported'')"
    by (simp add: main_def offline_strings sjis_site_facts d and_then_simps)
  from sjis_site_facts(4,5) fetch_all_sjis_site d m show ?thesis by blast
qed

subsection \<open>try_discover_sitemaps, discover_urls_from_sitemaps\<close>



lemma remdups_skip: "x \<in> set zs \<Longrightarrow> remdups (ys @ x # zs) = remdups (ys @ zs)"
  by (induction ys) auto

lemma keep_first_loop:
  "distinct acc \<Longrightarrow>
   foldl keep_first (set acc, acc) xs = (set acc \<union> set xs, rev (remdups (rev xs @ rev acc)))"
proof (induction xs arbitrary: acc)
  case Nil
  then show ?case by (simp add: distinct_remdups_id)
next
  case (Cons x xs)
  show ?case
  proof (cases "x \<in> set acc")
    case True
    then have "keep_first (set acc, acc) x = (set acc, acc)" by (simp add: keep_first_def)
    with Cons.IH[OF Cons.prems] True show ?thesis
      by (simp add: remdups_skip insert_absorb)
  next
    case False
    then have step: "keep_first (set acc, acc) x = (set (acc @ [x]), acc @ [x])"
      by (simp add: keep_first_def)
    from False Cons.prems have "distinct (acc @ [x])" by simp
    from Cons.IH[OF this] step show ?thesis by simp
  qed
qed

lemma keep_first_dedup: "snd (foldl keep_first ({}, []) xs) = dedup_first xs"
  using keep_first_loop[of "[]" xs] by (simp add: dedup_first_def)

lemma clean_step_loop:
  "foldl clean_step st urls = foldl keep_first st (filter (\<lambda>u. u \<noteq> []) (map strip urls))"
  by (induction urls arbitrary: st) (simp_all add: clean_step_def Let_def)

lemma cleaned_normalized: "snd (foldl clean_step ({}, []) urls) = normalized urls"
  by (simp add: clean_step_loop keep_first_dedup normalized_def)

lemma first_sitemap_wins:
  assumes "\<forall>p \<in> set pre. fetch_all_sitemap_urls frames env p 50 = Inr []"
    and "fetch_all_sitemap_urls frames env c 50 = Inr us" and "us \<noteq> []"
  shows "first_sitemap_with_urls frames env (pre @ c # post) = Inr (normalized us)"
  using assms(1)
proof (induction pre)
  case Nil
  from assms(2,3) show ?case by (simp add: cleaned_normalized and_then_simps)
next
  case (Cons p pre)
  then show ?case by (simp add: and_then_simps)
qed

lemma no_sitemap_with_urls:
  "\<forall>p \<in> set cs. fetch_all_sitemap_urls frames env p 50 = Inr []
   \<Longrightarrow> first_sitemap_with_urls frames env cs = Inr []"
  by (induction cs) (simp_all add: and_then_simps)

lemma lstrip_candidates:
  "map (lstrip_chars ''/'') DEFAULT_SITEMAP_CANDIDATES
     = [''sitemap.xml'', ''sitemap_index.xml'', ''sitemap-index.xml'', ''sitemap.xml.gz'']"
  by code_simp

lemma candidates_joined:
  assumes "urljoin env base_url ''robots.txt'' = Inr ru"
    and "urljoin env base_url ''sitemap.xml'' = Inr w1"
    and "urljoin env base_url ''sitemap_index.xml'' = Inr w2"
    and "urljoin env base_url ''sitemap-index.xml'' = Inr w3"
    and "urljoin env base_url ''sitemap.xml.gz'' = Inr w4"
  shows "try_discover_sitemaps env base_url = Inr (dedup_first (robots_sitemaps env ru @ [w1, w2, w3, w4]))"
proof -
  have paths: "lstrip_chars ''/'' ''/sitemap.xml'' = ''sitemap.xml''"
    "lstrip_chars ''/'' ''/sitemap_index.xml'' = ''sitemap_index.xml''"
    "lstrip_chars ''/'' ''/sitemap-index.xml'' = ''sitemap-index.xml''"
    "lstrip_chars ''/'' ''/sitemap.xml.gz'' = ''sitemap.xml.gz''"
    using lstrip_candidates by (simp_all add: DEFAULT_SITEMAP_CANDIDATES_def)
  have loop: "\<And>d. foldl_err
               (\<lambda>d p. and_then (urljoin env base_url (lstrip_chars ''/'' p)) (\<lambda>u. Inr (d @ [u])))
               d DEFAULT_SITEMAP_CANDIDATES = Inr (d @ [w1, w2, w3, w4])"
    unfolding DEFAULT_SITEMAP_CANDIDATES_def
    by (simp only: foldl_err.simps paths assms and_then_simps append_assoc append.simps)
  show ?thesis
    unfolding try_discover_sitemaps_def Let_def
    by (simp only: assms(1) and_then_simps loop keep_first_dedup robots_sitemaps_def)
       (simp split: option.splits)
qed

text \<open>
  C2. The candidates are the sitemaps that robots.txt declares (none when its fetch
  fails or its text is classified as a block page) followed by the four well-known
  paths joined to the base URL, each kept where it first occurs.
  \<open>discover_urls_from_sitemaps\<close> returns, for the first candidate whose resolution
  gives URLs, those URLs trimmed, without the empty ones and without repetitions,
  whatever the candidates after it are: they are not resolved. It returns the empty
  list when every candidate resolves to nothing. \<open>frames\<close> are left on the stack
  where the candidates are resolved.
\<close>

theorem discover_urls_from_sitemaps_first_wins:
  "(urljoin env base_url ''robots.txt'' = Inr ru
      \<and> urljoin env base_url ''sitemap.xml'' = Inr w1
      \<and> urljoin env base_url ''sitemap_index.xml'' = Inr w2
      \<and> urljoin env base_url ''sitemap-index.xml'' = Inr w3
      \<and> urljoin env base_url ''sitemap.xml.gz'' = Inr w4
      \<longrightarrow> try_discover_sitemaps env base_url
            = Inr (dedup_first (robots_sitemaps env ru @ [w1, w2, w3, w4])))
   \<and> (try_discover_sitemaps env base_url = Inr (pre @ c # post)
      \<and> (\<forall>p \<in> set pre. fetch_all_sitemap_urls frames env p 50 = Inr [])
      \<and> fetch_all_sitemap_urls frames env c 50 = Inr us \<and> us \<noteq> []
      \<longrightarrow> discover_urls_from_sitemaps frames env base_url = Inr (normalized us))
   \<and> (try_discover_sitemaps env base_url = Inr cs
      \<and> (\<forall>p \<in> set cs. fetch_all_sitemap_urls frames env p 50 = Inr [])
      \<longrightarrow> discover_urls_from_sitemaps frames env base_url = Inr [])"
proof -
  have a: "urljoin env base_url ''robots.txt'' = Inr ru
      \<and> urljoin env base_url ''sitemap.xml'' = Inr w1
      \<and> urljoin env base_url ''sitemap_index.xml'' = Inr w2
      \<and> urljoin env base_url ''sitemap-index.xml'' = Inr w3
      \<and> urljoin env base_url ''sitemap.xml.gz'' = Inr w4
      \<longrightarrow> try_discover_sitemaps env base_url
            = Inr (dedup_first (robots_sitemaps env ru @ [w1, w2, w3, w4]))"
    using candidates_joined by blast
  have b: "try_discover_sitemaps env base_url = Inr (pre @ c # post)
      \<and> (\<forall>p \<in> set pre. fetch_all_sitemap_urls frames env p 50 = Inr [])
      \<and> fetch_all_sitemap_urls frames env c 50 = Inr us \<and> us \<noteq> []
      \<longrightarrow> discover_urls_from_sitemaps frames env base_url = Inr (normalized us)"
    by (auto simp: discover_urls_from_sitemaps_def first_sitemap_wins and_then_simps)
  have c: "try_discover_sitemaps env base_url = Inr cs
      \<and> (\<forall>p \<in> set cs. fetch_all_sitemap_urls frames env p 50 = Inr [])
      \<longrightarrow> discover_urls_from_sitemaps frames env base_url = Inr []"
    by (auto simp: discover_urls_from_sitemaps_def no_sitemap_with_urls and_then_simps)
  from a b c show ?thesis by blast
qed

lemma example_site_candidates_facts:
  "urljoin_example ''https://example.com/'' ''robots.txt'' = Inr ''https://example.com/robots.txt''"
  "urljoin_example ''https://example.com/'' ''sitemap.xml'' = Inr ''https://example.com/sitemap.xml''"
  "urljoin_example ''https://example.com/'' ''sitemap_index.xml'' = Inr ''https://example.com/sitemap_index.xml''"
  "urljoin_example ''https://example.com/'' ''sitemap-index.xml'' = Inr ''https://example.com/sitemap-index.xml''"
  "urljoin_example ''https://example.com/'' ''sitemap.xml.gz'' = Inr ''https://example.com/sitemap.xml.gz''"
  "dedup_first ([''https://example.com/old.xml'', ''https://example.com/sitemap_index.xml'']
      @ [''https://example.com/sitemap.xml'', ''https://example.com/sitemap_index.xml'',
         ''https://example.com/sitemap-index.xml'', ''https://example.com/sitemap.xml.gz''])
   = [''https://example.com/old.xml'', ''https://example.com/sitemap_index.xml'',
      ''https://example.com/sitemap.xml'', ''https://example.com/sitemap-index.xml'',
      ''https://example.com/sitemap.xml.gz'']"
  "normalized [''https://example.com/'', ''https://example.com/about'', ''https://example.com/post/1'']
   = [''https://example.com/'', ''https://example.com/about'', ''https://example.com/post/1'']"
  by code_simp+

lemma example_site_robots_sitemaps:
  "robots_sitemaps example_site ''https://example.com/robots.txt''
     = [''https://example.com/old.xml'', ''https://example.com/sitemap_index.xml'']"
  by (simp add: robots_sitemaps_def example_site_fetches example_site_not_blocked example_site_parses)

text \<open>
  The theorem on the example site, where robots.txt declares a sitemap that is gone
  and the index, which is also one of the well-known paths: the index is the second
  of five candidates and the first that gives URLs. On the site that answers
  nothing every candidate resolves to nothing.
\<close>

theorem discover_urls_from_sitemaps_first_wins_witness:
  "try_discover_sitemaps example_site ''https://example.com/''
     = Inr [''https://example.com/old.xml'', ''https://example.com/sitemap_index.xml'',
            ''https://example.com/sitemap.xml'', ''https://example.com/sitemap-index.xml'',
            ''https://example.com/sitemap.xml.gz'']
   \<and> discover_urls_from_sitemaps 997 example_site ''https://example.com/''
     = Inr [''https://example.com/'', ''https://example.com/about'', ''https://example.com/post/1'']
   \<and> discover_urls_from_sitemaps 997 offline ''https://example.com/'' = Inr []"
proof -
  note first_wins = discover_urls_from_sitemaps_first_wins
  have joins: "urljoin example_site ''https://example.com/'' ''robots.txt'' = Inr ''https://example.com/robots.txt''
      \<and> urljoin example_site ''https://example.com/'' ''sitemap.xml'' = Inr ''https://example.com/sitemap.xml''
      \<and> urljoin example_site ''https://example.com/'' ''sitemap_index.xml'' = Inr ''https://example.com/sitemap_index.xml''
      \<and> urljoin example_site ''https://example.com/'' ''sitemap-index.xml'' = Inr ''https://example.com/sitemap-index.xml''
      \<and> urljoin example_site ''https://example.com/'' ''sitemap.xml.gz'' = Inr ''https://example.com/sitemap.xml.gz''"
    by (simp only: env_example_site example_site_candidates_facts simp_thms)
  from first_wins[of example_site "''https://example.com/''" "''https://example.com/robots.txt''"
          "''https://example.com/sitemap.xml''" "''https://example.com/sitemap_index.xml''"
          "''https://example.com/sitemap-index.xml''" "''https://example.com/sitemap.xml.gz''"] joins
  have "try_discover_sitemaps example_site ''https://example.com/''
     = Inr (dedup_first (robots_sitemaps example_site ''https://example.com/robots.txt''
              @ [''https://example.com/sitemap.xml'', ''https://example.com/sitemap_index.xml'',
                 ''https://example.com/sitemap-index.xml'', ''https://example.com/sitemap.xml.gz'']))"
    by blast
  then have cands: "try_discover_sitemaps example_site ''https://example.com/''
     = Inr [''https://example.com/old.xml'', ''https://example.com/sitemap_index.xml'',
            ''https://example.com/sitemap.xml'', ''https://example.com/sitemap-index.xml'',
            ''https://example.com/sitemap.xml.gz'']"
    by (simp only: example_site_robots_sitemaps example_site_candidates_facts)
  have cands': "try_discover_sitemaps example_site ''https://example.com/''
     = Inr ([''https://example.com/old.xml''] @ ''https://example.com/sitemap_index.xml''
            # [''https://example.com/sitemap.xml'', ''https://example.com/sitemap-index.xml'',
               ''https://example.com/sitemap.xml.gz''])"
    using cands by simp
  have gone: "\<forall>p \<in> set [''https://example.com/old.xml''].
                fetch_all_sitemap_urls 997 example_site p 50 = Inr []"
    by (simp add: resolve_example_none example_site_fetches)
  have index: "fetch_all_sitemap_urls 997 example_site ''https://example.com/sitemap_index.xml'' 50
       = Inr [''https://example.com/'', ''https://example.com/about'', ''https://example.com/post/1'']"
    by (rule resolve_example_index) simp
  have some: "[''https://example.com/'', ''https://example.com/about'', ''https://example.com/post/1''] \<noteq> []"
    by simp
  from first_wins[of example_site "''https://example.com/''" _ _ _ _ _ "[''https://example.com/old.xml'']"
          "''https://example.com/sitemap_index.xml''"
          "[''https://example.com/sitemap.xml'', ''https://example.com/sitemap-index.xml'',
            ''https://example.com/sitemap.xml.gz'']" 997
          "[''https://example.com/'', ''https://example.com/about'', ''https://example.com/post/1'']"]
    cands' gone index some
  have "discover_urls_from_sitemaps 997 example_site ''https://example.com/''
     = Inr (normalized [''https://example.com/'', ''https://example.com/about'',
                        ''https://example.com/post/1''])"
    by blast
  then have found: "discover_urls_from_sitemaps 997 example_site ''https://example.com/''
     = Inr [''https://example.com/'', ''https://example.com/about'', ''https://example.com/post/1'']"
    by (simp only: example_site_candidates_facts)
  have empties: "\<forall>p \<in> set [''https://example.com/sitemap.xml'', ''https://example.com/sitemap_index.xml'',
            ''https://example.com/sitemap-index.xml'', ''https://example.com/sitemap.xml.gz''].
                fetch_all_sitemap_urls 997 offline p 50 = Inr []"
    by (simp add: fetch_all_offline)
  from first_wins[of offline "''https://example.com/''" _ _ _ _ _ _ _ _ 997 _
          "[''https://example.com/sitemap.xml'', ''https://example.com/sitemap_index.xml'',
            ''https://example.com/sitemap-index.xml'', ''https://example.com/sitemap.xml.gz'']"]
    candidates_offline empties
  have none: "discover_urls_from_sitemaps 997 offline ''https://example.com/'' = Inr []"
    by blast
  from cands found none show ?thesis by blast
qed

subsection \<open>compute_average_words\<close>

lemma sample_step_page_words:
  "sample_step env acc u = acc @ (case page_words env u of None \<Rightarrow> [] | Some n \<Rightarrow> [n])"
  by (simp add: sample_step_def page_words_def Let_def split: option.splits)

lemma sample_loop:
  "foldl (sample_step env) acc urls = acc @ List.map_filter (page_words env) urls"
proof (induction urls arbitrary: acc)
  case Nil
  show ?case by (simp add: List.map_filter_simps)
next
  case (Cons u urls)
  show ?case
    by (simp only: foldl_Cons Cons.IH)
       (cases "page_words env u"; simp add: sample_step_page_words List.map_filter_simps)
qed

lemma page_words_fails: "page_content env u = None \<Longrightarrow> page_words env u = None"
  by (simp add: page_words_def)

lemma sample_none:
  "\<forall>u \<in> set urls. page_content env u = None \<Longrightarrow> List.map_filter (page_words env) urls = []"
  by (induction urls) (simp_all add: List.map_filter_simps page_words_fails)

text \<open>
  C9. \<open>compute_average_words\<close> looks at the first \<open>sample_size\<close> URLs of the list
  and at no other, 10 of them by default. A page whose navigation fails, whose HTML
  is classified as a block page or whose word count is 0 contributes nothing; the
  result is the arithmetic mean of the counts of the others. When no page
  contributes, as when every navigation fails, the result is 0 and no exception is
  raised. The quotient is that of the reals.
\<close>

theorem compute_average_words_sample:
  "compute_average_words env urls (int sample_size)
     = mean (List.map_filter (page_words env) (take sample_size urls))
   \<and> (page_words env u = None
        \<longleftrightarrow> (page_content env u = None
             \<or> (\<exists>html. page_content env u = Some html
                  \<and> (is_probably_cloudflare_block html \<or> word_count_from_html env html = 0))))
   \<and> (List.map_filter (page_words env) (take sample_size urls) = []
        \<longrightarrow> compute_average_words env urls (int sample_size) = 0)
   \<and> ((\<forall>u \<in> set (take sample_size urls). page_content env u = None)
        \<longrightarrow> compute_average_words env urls (int sample_size) = 0)"
proof -
  have a: "compute_average_words env urls (int sample_size)
     = mean (List.map_filter (page_words env) (take sample_size urls))"
    by (simp add: compute_average_words_def Let_def slice_to_nat sample_loop mean_def)
  have b: "page_words env u = None
        \<longleftrightarrow> (page_content env u = None
             \<or> (\<exists>html. page_content env u = Some html
                  \<and> (is_probably_cloudflare_block html \<or> word_count_from_html env html = 0)))"
    by (auto simp: page_words_def split: option.splits)
  have c: "List.map_filter (page_words env) (take sample_size urls) = []
        \<longrightarrow> compute_average_words env urls (int sample_size) = 0"
    unfolding a by (simp add: mean_def)
  have d: "(\<forall>u \<in> set (take sample_size urls). page_content env u = None)
        \<longrightarrow> compute_average_words env urls (int sample_size) = 0"
    unfolding a using sample_none[of "take sample_size urls" env] by (simp add: mean_def)
  from a b c d show ?thesis by blast
qed

lemma example_site_pages:
  "page_content example_site ''https://example.com/'' = Some home_html"
  "page_content example_site ''https://example.com/about'' = Some about_html"
  "page_content example_site ''https://example.com/post/1'' = None"
  "\<not> is_probably_cloudflare_block home_html"
  "\<not> is_probably_cloudflare_block about_html"
  "word_count_from_html example_site home_html = 2"
  "word_count_from_html example_site about_html = 7"
  by code_simp+

lemma example_site_page_words:
  "page_words example_site ''https://example.com/'' = Some 2"
  "page_words example_site ''https://example.com/about'' = Some 7"
  "page_words example_site ''https://example.com/post/1'' = None"
  by (simp_all add: page_words_def example_site_pages)

text \<open>
  The theorem on the three pages of the example site, of which the third cannot be
  reached: the first two count 2 and 7 words. With a sample of one page the mean is
  that of the first. On the site that answers nothing the result is 0.
\<close>

theorem compute_average_words_sample_witness:
  "compute_average_words example_site
       [''https://example.com/'', ''https://example.com/about'', ''https://example.com/post/1''] 10
     = 9 / 2
   \<and> compute_average_words example_site
       [''https://example.com/'', ''https://example.com/about'', ''https://example.com/post/1''] 1
     = 2
   \<and> compute_average_words offline [''https://example.com/'', ''https://example.com/about''] 10 = 0"
proof -
  let ?urls = "[''https://example.com/'', ''https://example.com/about'', ''https://example.com/post/1'']"
  from compute_average_words_sample[of example_site ?urls 10]
  have "compute_average_words example_site ?urls (int 10)
          = mean (List.map_filter (page_words example_site) (take 10 ?urls))"
    by blast
  then have a: "compute_average_words example_site ?urls 10 = 9 / 2"
    by (simp add: List.map_filter_simps example_site_page_words mean_def)
  from compute_average_words_sample[of example_site ?urls 1]
  have "compute_average_words example_site ?urls (int 1)
          = mean (List.map_filter (page_words example_site) (take 1 ?urls))"
    by blast
  then have b: "compute_average_words example_site ?urls 1 = 2"
    by (simp add: List.map_filter_simps example_site_page_words mean_def)
  have fails: "\<forall>u \<in> set (take 10 [''https://example.com/'', ''https://example.com/about'']).
                 page_content offline u = None"
    by (simp add: env_offline)
  from compute_average_words_sample[of offline "[''https://example.com/'', ''https://example.com/about'']" 10]
    fails
  have "compute_average_words offline [''https://example.com/'', ''https://example.com/about''] (int 10) = 0"
    by blast
  then have c: "compute_average_words offline [''https://example.com/'', ''https://example.com/about''] 10 = 0"
    by simp
  from a b c show ?thesis by blast
qed

subsection \<open>main\<close>

lemma keep_same_host_acc:
  "foldl_err (\<lambda>acc u. and_then (same_host env u base_url) (\<lambda>same. Inr (if same then acc @ [u] else acc)))
     acc urls = Inr kept
   \<Longrightarrow> kept = acc @ filter (\<lambda>u. same_host env u base_url = Inr True) urls"
proof (induction urls arbitrary: acc)
  case Nil
  then show ?case by simp
next
  case (Cons u urls)
  from Cons.prems obtain same where s: "same_host env u base_url = Inr same"
    and r: "foldl_err (\<lambda>acc u. and_then (same_host env u base_url) (\<lambda>same. Inr (if same then acc @ [u] else acc)))
              (if same then acc @ [u] else acc) urls = Inr kept"
    by (auto simp: and_then_Inr)
  from Cons.IH[OF r] s show ?case by (cases same) simp_all
qed

lemma keep_same_host_filter:
  "keep_same_host env base_url urls = Inr kept
   \<Longrightarrow> kept = filter (\<lambda>u. same_host env u base_url = Inr True) urls"
  unfolding keep_same_host_def by (drule keep_same_host_acc) simp




lemma main_returns:
  assumes "main frames env argv = Inr (c, Some r)"
  shows "\<exists>base urls kept.
           3 \<le> length argv \<and> c = 0
           \<and> normalize_base_url env (strip (argv ! 2)) = Inr base
           \<and> (discover_urls_from_sitemaps frames env base = Inr urls \<and> urls \<noteq> []
                \<or> discover_urls_from_sitemaps frames env base = Inr []
                   \<and> fallback_crawl_internal env base 2000 = Inr urls)
           \<and> keep_same_host env base urls = Inr kept
           \<and> r = \<lparr>website = strip (argv ! 2), total_pages = length (sort (remdups kept)),
                   average_words = round2 (compute_average_words env (sort (remdups kept)) 10),
                   result_id = strip (argv ! 1)\<rparr>"
proof -
  from assms have len: "3 \<le> length argv"
    by (auto simp: main_def split: if_splits)
  with assms obtain base where base: "normalize_base_url env (strip (argv ! 2)) = Inr base"
    and r1: "and_then (discover_urls_from_sitemaps frames env base) (\<lambda>urls.
          and_then (if urls = [] then fallback_crawl_internal env base 2000 else Inr urls) (\<lambda>urls.
          and_then (keep_same_host env base urls) (\<lambda>urls.
            let urls = sort (remdups urls);
                total_pages = length urls;
                average_words = compute_average_words env urls 10
            in Inr (0, Some \<lparr>website = strip (argv ! 2),
                              total_pages = total_pages,
                              average_words = round2 average_words,
                              result_id = strip (argv ! 1)\<rparr>)))) = Inr (c, Some r)"
    by (auto simp: main_def Let_def and_then_Inr)
  from r1 obtain found where found: "discover_urls_from_sitemaps frames env base = Inr found"
    and r2: "and_then (if found = [] then fallback_crawl_internal env base 2000 else Inr found) (\<lambda>urls.
          and_then (keep_same_host env base urls) (\<lambda>urls.
            let urls = sort (remdups urls);
                total_pages = length urls;
                average_words = compute_average_words env urls 10
            in Inr (0, Some \<lparr>website = strip (argv ! 2),
                              total_pages = total_pages,
                              average_words = round2 average_words,
                              result_id = strip (argv ! 1)\<rparr>))) = Inr (c, Some r)"
    unfolding and_then_Inr by blast
  from r2 obtain urls where urls: "(if found = [] then fallback_crawl_internal env base 2000 else Inr found) = Inr urls"
    and r3: "and_then (keep_same_host env base urls) (\<lambda>urls.
            let urls = sort (remdups urls);
                total_pages = length urls;
                average_words = compute_average_words env urls 10
            in Inr (0, Some \<lparr>website = strip (argv ! 2),
                              total_pages = total_pages,
                              average_words = round2 average_words,
                              result_id = strip (argv ! 1)\<rparr>)) = Inr (c, Some r)"
    unfolding and_then_Inr by blast
  from r3 obtain kept where kept: "keep_same_host env base urls = Inr kept"
    and r4: "(let urls = sort (remdups kept);
                total_pages = length urls;
                average_words = compute_average_words env urls 10
            in Inr (0, Some \<lparr>website = strip (argv ! 2),
                              total_pages = total_pages,
                              average_words = round2 average_words,
                              result_id = strip (argv ! 1)\<rparr>)) = (Inr (c, Some r) :: error + int \<times> Result option)"
    unfolding and_then_Inr by blast
  from r4 have res: "c = 0" "r = \<lparr>website = strip (argv ! 2), total_pages = length (sort (remdups kept)),
                   average_words = round2 (compute_average_words env (sort (remdups kept)) 10),
                   result_id = strip (argv ! 1)\<rparr>"
    by (simp_all add: Let_def)
  from found urls have "discover_urls_from_sitemaps frames env base = Inr urls \<and> urls \<noteq> []
                \<or> discover_urls_from_sitemaps frames env base = Inr []
                   \<and> fallback_crawl_internal env base 2000 = Inr urls"
    by (auto split: if_splits)
  with len base kept res show ?thesis by blast
qed

lemma round_half_even_near: "\<bar>of_int (round_half_even y) - y\<bar> \<le> 1 / 2"
  unfolding round_half_even_def Let_def by (auto simp: abs_if) linarith+

lemma round2_near: "\<bar>round2 x - x\<bar> \<le> 1 / 200"
  using round_half_even_near[of "x * 100"] unfolding round2_def
  by (simp add: field_simps abs_if split: if_splits)

lemma kept_sorted:
  "sort (remdups (filter P urls)) = sorted_list_of_set {u \<in> set urls. P u}"
  "length (remdups (filter P urls)) = card {u \<in> set urls. P u}"
proof -
  have s: "set (filter P urls) = {u \<in> set urls. P u}" by auto
  show "sort (remdups (filter P urls)) = sorted_list_of_set {u \<in> set urls. P u}"
    using sorted_list_of_set_sort_remdups[of "filter P urls"] unfolding s by simp
  show "length (remdups (filter P urls)) = card {u \<in> set urls. P u}"
    using length_remdups_card_conv[of "filter P urls"] unfolding s by simp
qed





text \<open>
  C7, amended. A run of \<open>main\<close> that completes returns 0 with a \<open>Result\<close> whose
  \<open>website\<close> is the second argument stripped of the whitespace around it, and not
  normalized otherwise, and whose \<open>id\<close> is the first argument, stripped as well.
  \<open>total_pages\<close> is the number of distinct URLs, among those of the sitemaps or,
  when the sitemaps give none, of the crawl, that are on the host of the base URL.
  \<open>average_words\<close> is the average of \<open>compute_average_words\<close> over these URLs in
  lexicographic order, sample size 10, rounded to two decimal places: a multiple
  of one hundredth at most half a hundredth away from the average.
\<close>

theorem main_result:
  "main frames env argv = Inr (c, Some r)
   \<longrightarrow> c = 0 \<and> website r = strip (argv ! 2) \<and> result_id r = strip (argv ! 1)
       \<and> (\<exists>base urls.
             normalize_base_url env (strip (argv ! 2)) = Inr base
             \<and> (discover_urls_from_sitemaps frames env base = Inr urls \<and> urls \<noteq> []
                  \<or> discover_urls_from_sitemaps frames env base = Inr []
                     \<and> fallback_crawl_internal env base 2000 = Inr urls)
             \<and> total_pages r = card {u \<in> set urls. same_host env u base = Inr True}
             \<and> average_words r
                 = round2 (compute_average_words env
                     (sorted_list_of_set {u \<in> set urls. same_host env u base = Inr True}) 10)
             \<and> \<bar>average_words r
                  - compute_average_words env
                      (sorted_list_of_set {u \<in> set urls. same_host env u base = Inr True}) 10\<bar>
                 \<le> 1 / 200)
       \<and> (\<exists>n :: int. average_words r = of_int n / 100)"
proof
  assume m: "main frames env argv = Inr (c, Some r)"
  from main_returns[OF m] obtain base urls kept where c: "c = 0"
    and base: "normalize_base_url env (strip (argv ! 2)) = Inr base"
    and urls: "discover_urls_from_sitemaps frames env base = Inr urls \<and> urls \<noteq> []
                \<or> discover_urls_from_sitemaps frames env base = Inr []
                   \<and> fallback_crawl_internal env base 2000 = Inr urls"
    and kept: "keep_same_host env base urls = Inr kept"
    and r: "r = \<lparr>website = strip (argv ! 2), total_pages = length (sort (remdups kept)),
                   average_words = round2 (compute_average_words env (sort (remdups kept)) 10),
                   result_id = strip (argv ! 1)\<rparr>"
    by blast
  let ?same = "\<lambda>u. same_host env u base = Inr True"
  from keep_same_host_filter[OF kept] have k: "kept = filter ?same urls" .
  have total: "total_pages r = card {u \<in> set urls. ?same u}"
    unfolding r k by (simp add: kept_sorted(2))
  have avg: "average_words r
      = round2 (compute_average_words env (sorted_list_of_set {u \<in> set urls. ?same u}) 10)"
    unfolding r k by (simp add: kept_sorted(1))
  have near: "\<bar>average_words r
                  - compute_average_words env (sorted_list_of_set {u \<in> set urls. ?same u}) 10\<bar>
                 \<le> 1 / 200"
    unfolding avg by (rule round2_near)
  have hundredth: "\<exists>n :: int. average_words r = of_int n / 100"
    unfolding avg round2_def by blast
  from r have w: "website r = strip (argv ! 2)" "result_id r = strip (argv ! 1)" by simp_all
  from c w base urls total avg near hundredth
  show "c = 0 \<and> website r = strip (argv ! 2) \<and> result_id r = strip (argv ! 1)
       \<and> (\<exists>base urls.
             normalize_base_url env (strip (argv ! 2)) = Inr base
             \<and> (discover_urls_from_sitemaps frames env base = Inr urls \<and> urls \<noteq> []
                  \<or> discover_urls_from_sitemaps frames env base = Inr []
                     \<and> fallback_crawl_internal env base 2000 = Inr urls)
             \<and> total_pages r = card {u \<in> set urls. same_host env u base = Inr True}
             \<and> average_words r
                 = round2 (compute_average_words env
                     (sorted_list_of_set {u \<in> set urls. same_host env u base = Inr True}) 10)
             \<and> \<bar>average_words r
                  - compute_average_words env
                      (sorted_list_of_set {u \<in> set urls. same_host env u base = Inr True}) 10\<bar>
                 \<le> 1 / 200)
       \<and> (\<exists>n :: int. average_words r = of_int n / 100)"
    by blast
qed

lemma candidates_example_site:
  "try_discover_sitemaps example_site ''https://example.com/''
     = Inr ([''https://example.com/old.xml''] @ ''https://example.com/sitemap_index.xml''
            # [''https://example.com/sitemap.xml'', ''https://example.com/sitemap-index.xml'',
               ''https://example.com/sitemap.xml.gz''])"
proof -
  have "try_discover_sitemaps example_site ''https://example.com/''
     = Inr (dedup_first (robots_sitemaps example_site ''https://example.com/robots.txt''
              @ [''https://example.com/sitemap.xml'', ''https://example.com/sitemap_index.xml'',
                 ''https://example.com/sitemap-index.xml'', ''https://example.com/sitemap.xml.gz'']))"
    by (rule candidates_joined) (simp_all only: env_example_site example_site_candidates_facts)
  then show ?thesis
    by (simp only: example_site_robots_sitemaps example_site_candidates_facts) simp
qed

lemma discover_example_site:
  "discover_urls_from_sitemaps 997 example_site ''https://example.com/''
     = Inr [''https://example.com/'', ''https://example.com/about'', ''https://example.com/post/1'']"
proof -
  have gone: "\<forall>p \<in> set [''https://example.com/old.xml''].
                fetch_all_sitemap_urls 997 example_site p 50 = Inr []"
    by (simp add: resolve_example_none example_site_fetches)
  have index: "fetch_all_sitemap_urls 997 example_site ''https://example.com/sitemap_index.xml'' 50
       = Inr [''https://example.com/'', ''https://example.com/about'', ''https://example.com/post/1'']"
    by (rule resolve_example_index) simp
  have "first_sitemap_with_urls 997 example_site
          ([''https://example.com/old.xml''] @ ''https://example.com/sitemap_index.xml''
            # [''https://example.com/sitemap.xml'', ''https://example.com/sitemap-index.xml'',
               ''https://example.com/sitemap.xml.gz''])
        = Inr (normalized [''https://example.com/'', ''https://example.com/about'',
                           ''https://example.com/post/1''])"
    by (rule first_sitemap_wins[OF gone index]) simp
  then show ?thesis
    unfolding discover_urls_from_sitemaps_def candidates_example_site and_then_simps
    by (simp only: example_site_candidates_facts)
qed

lemma example_site_main_facts:
  "strip ''42'' = ''42''"
  "strip ''example.com '' = ''example.com''"
  "normalize_base_url example_site ''example.com'' = Inr ''https://example.com/''"
  "same_host example_site ''https://example.com/'' ''https://example.com/'' = Inr True"
  "same_host example_site ''https://example.com/about'' ''https://example.com/'' = Inr True"
  "same_host example_site ''https://example.com/post/1'' ''https://example.com/'' = Inr True"
  "sort (remdups [''https://example.com/'', ''https://example.com/about'', ''https://example.com/post/1''])
     = [''https://example.com/'', ''https://example.com/about'', ''https://example.com/post/1'']"
  by code_simp+

lemma average_example_site:
  "compute_average_words example_site
     [''https://example.com/'', ''https://example.com/about'', ''https://example.com/post/1''] 10 = 9 / 2"
  by (simp add: compute_average_words_def Let_def slice_to_def sample_loop List.map_filter_simps
        example_site_page_words)

lemma round2_example: "round2 (9 / 2) = 9 / 2"
  by (simp add: round2_def round_half_even_def)

lemma main_example_site:
  "main 997 example_site [''site_metrics_playwright.py'', ''42'', ''example.com '']
     = Inr (0, Some \<lparr>website = ''example.com'', total_pages = 3, average_words = 9 / 2,
                      result_id = ''42''\<rparr>)"
  by (simp add: main_def example_site_main_facts discover_example_site keep_same_host_def
        and_then_simps average_example_site round2_example)

text \<open>
  The theorem on the run for the example site, whose website is given with a blank
  after it: the sitemaps give three URLs, all on the host, and the two pages that
  can be reached count 2 and 7 words.
\<close>

theorem main_result_witness:
  "main 997 example_site [''site_metrics_playwright.py'', ''42'', ''example.com '']
     = Inr (0, Some \<lparr>website = ''example.com'', total_pages = 3, average_words = 9 / 2,
                      result_id = ''42''\<rparr>)
   \<and> website \<lparr>website = ''example.com'', total_pages = 3, average_words = 9 / 2, result_id = ''42''\<rparr>
       = strip ([''site_metrics_playwright.py'', ''42'', ''example.com ''] ! 2)
   \<and> (\<exists>n :: int. average_words \<lparr>website = ''example.com'', total_pages = 3, average_words = 9 / 2,
                                    result_id = ''42''\<rparr> = of_int n / 100)"
  using main_result[of 997 example_site "[''site_metrics_playwright.py'', ''42'', ''example.com '']" 0
          "\<lparr>website = ''example.com'', total_pages = 3, average_words = 9 / 2, result_id = ''42''\<rparr>"]
    main_example_site
  by blast

text \<open>
  C7 as stated fails: the website of the \<open>Result\<close> is not the argument exactly as
  given. An argument with a blank in front of it comes back without the blank.
\<close>

theorem main_website_counterexample:
  "main 997 offline [''site_metrics_playwright.py'', ''7'', '' example.com'']
     = Inr (0, Some \<lparr>website = ''example.com'', total_pages = 1, average_words = 0,
                      result_id = ''7''\<rparr>)
   \<and> website \<lparr>website = ''example.com'', total_pages = 1, average_words = 0, result_id = ''7''\<rparr>
       \<noteq> [''site_metrics_playwright.py'', ''7'', '' example.com''] ! 2"
  using main_offline by simp

end
